theory Spec2Isabelle
  imports Complex_Main
begin

section \<open>Conventions of the embedding\<close>

text \<open>
  The C sources compute with \<^verbatim>\<open>double\<close>. The embedding reads every \<^verbatim>\<open>double\<close> as a
  real number: comparisons, branches and the algebra of the formulas are those of the
  source, rounding, infinities and NaN are not represented. \<^verbatim>\<open>log10\<close> is \<open>log 10\<close>,
  \<^verbatim>\<open>pow(x, y)\<close> is \<open>x powr y\<close>, \<^verbatim>\<open>exp\<close> and \<^verbatim>\<open>sqrt\<close> are the functions of the same
  name. In HOL a division by zero and the logarithm of zero are 0, where the C code
  yields an infinity or NaN: the two agree wherever the divisor is not zero and the
  argument of the logarithm is positive, and the properties below are stated there.
  A call of \<^verbatim>\<open>endrun\<close> ends the process: it is the error value \<open>Endrun code\<close>.
  Arrays are functions from the index to the entry; only the entries inside the bounds of
  the C array mean anything.
\<close>

datatype error = Endrun int

definition c_int :: "real \<Rightarrow> int" where
  \<comment> \<open>the conversion \<^verbatim>\<open>(int) t\<close>: truncation towards zero\<close>
  "c_int t = (if 0 \<le> t then \<lfloor>t\<rfloor> else \<lceil>t\<rceil>)"

definition DMAX :: "real \<Rightarrow> real \<Rightarrow> real" where
  "DMAX a b = (if a > b then a else b)"

subsection \<open>Constants of physconst.h and cooling.c\<close>

definition HYDROGEN_MASSFRAC :: real where
  "HYDROGEN_MASSFRAC = 76 / 100"

definition BOLTZMANN :: real where
  "BOLTZMANN = 138066 / 10 ^ 21"

definition PROTONMASS :: real where
  "PROTONMASS = 16726 / 10 ^ 28"

definition YHELIUM :: real where
  "YHELIUM = (1 - HYDROGEN_MASSFRAC) / (4 * HYDROGEN_MASSFRAC)"

definition MAXITER :: nat where
  "MAXITER = 400"

definition NCOOLTAB :: int where
  "NCOOLTAB = 2000"

definition SMALLNUM :: real where
  "SMALLNUM = 1 / 10 ^ 60"

definition Tmax :: real where
  \<comment> \<open>\<^verbatim>\<open>static double Tmax = 9.0\<close>, never assigned\<close>
  "Tmax = 9"

subsection \<open>The structs of cooling.c\<close>

record abundance =
  ne :: real
  nH0 :: real
  nHp :: real
  nHe0 :: real
  nHep :: real
  nHepp :: real

record rates =
  aHp :: real
  aHep :: real
  aHepp :: real
  ad :: real
  geH0 :: real
  geHe0 :: real
  geHep :: real
  bH0 :: real
  bHep :: real
  bff :: real

record UVBG =
  J_UV :: real
  gJH0 :: real
  gJHe0 :: real
  gJHep :: real
  epsH0 :: real
  epsHe0 :: real
  epsHep :: real

text \<open>The static rate tables of cooling.c with the two statics \<^verbatim>\<open>Tmin\<close> and
  \<^verbatim>\<open>deltaT\<close> of their temperature grid; each table has \<open>NCOOLTAB + 1\<close> entries.\<close>

record rate_tables =
  Tmin :: real
  deltaT :: real
  BetaH0 :: "int \<Rightarrow> real"
  BetaHep :: "int \<Rightarrow> real"
  Betaff :: "int \<Rightarrow> real"
  AlphaHp :: "int \<Rightarrow> real"
  AlphaHep :: "int \<Rightarrow> real"
  Alphad :: "int \<Rightarrow> real"
  AlphaHepp :: "int \<Rightarrow> real"
  GammaeH0 :: "int \<Rightarrow> real"
  GammaeHe0 :: "int \<Rightarrow> real"
  GammaeHep :: "int \<Rightarrow> real"

section \<open>The ionization balance: \<^verbatim>\<open>find_abundances_and_rates\<close>\<close>

definition interp_tab :: "real \<Rightarrow> real \<Rightarrow> int \<Rightarrow> (int \<Rightarrow> real) \<Rightarrow> real" where
  \<comment> \<open>\<^verbatim>\<open>flow * Tab[j] + fhi * Tab[j + 1]\<close>\<close>
  "interp_tab flow fhi j tab = flow * tab j + fhi * tab (j + 1)"

text \<open>One pass of the body of the do-loop, from the interpolation of the rates to
  eqn (38); the result is \<open>y\<close>, \<open>r\<close> and the local \<^verbatim>\<open>neold\<close>.\<close>

definition fa_pass ::
  "rate_tables \<Rightarrow> real \<Rightarrow> real \<Rightarrow> int \<Rightarrow> UVBG \<Rightarrow> real \<Rightarrow> abundance \<Rightarrow> rates
    \<Rightarrow> abundance \<times> rates \<times> real" where
  "fa_pass tb flow fhi j uvbg necgs y r =
    (let r = r\<lparr>aHp := interp_tab flow fhi j (AlphaHp tb),
               aHep := interp_tab flow fhi j (AlphaHep tb),
               aHepp := interp_tab flow fhi j (AlphaHepp tb),
               ad := interp_tab flow fhi j (Alphad tb),
               geH0 := interp_tab flow fhi j (GammaeH0 tb),
               geHe0 := interp_tab flow fhi j (GammaeHe0 tb),
               geHep := interp_tab flow fhi j (GammaeHep tb)\<rparr>;
         nouv = (necgs \<le> 1 / 10 ^ 25 \<or> J_UV uvbg = 0);
         gJH0ne = (if nouv then 0 else gJH0 uvbg / necgs);
         gJHe0ne = (if nouv then 0 else gJHe0 uvbg / necgs);
         gJHepne = (if nouv then 0 else gJHep uvbg / necgs);
         y = y\<lparr>nH0 := aHp r / (aHp r + geH0 r + gJH0ne)\<rparr>;
         y = y\<lparr>nHp := 1 - nH0 y\<rparr>;
         y = (if gJHe0ne + geHe0 r \<le> SMALLNUM
              then y\<lparr>nHep := 0, nHepp := 0, nHe0 := YHELIUM\<rparr>
              else
                (let y = y\<lparr>nHep := YHELIUM / (1 + (aHep r + ad r) / (geHe0 r + gJHe0ne)
                                            + (geHep r + gJHepne) / aHepp r)\<rparr>;
                     y = y\<lparr>nHe0 := nHep y * (aHep r + ad r) / (geHe0 r + gJHe0ne)\<rparr>
                 in y\<lparr>nHepp := nHep y * (geHep r + gJHepne) / aHepp r\<rparr>));
         neold = ne y;
         y = y\<lparr>ne := nHp y + nHep y + 2 * nHepp y\<rparr>
     in (y, r, neold))"

text \<open>The do-loop itself. Its state is \<^verbatim>\<open>niter\<close>, \<^verbatim>\<open>necgs\<close>, \<open>y\<close> and \<open>r\<close>; it is left
  by the first \<^verbatim>\<open>break\<close> (no UV background), by the second (the electron density moved
  by less than \<open>1e-4\<close>), or when \<^verbatim>\<open>niter\<close> reaches \<open>MAXITER\<close>. The value is the state at
  the exit.\<close>

function fa_loop ::
  "rate_tables \<Rightarrow> real \<Rightarrow> real \<Rightarrow> int \<Rightarrow> real \<Rightarrow> UVBG \<Rightarrow> nat \<Rightarrow> real \<Rightarrow> abundance \<Rightarrow> rates
    \<Rightarrow> nat \<times> abundance \<times> rates" where
  "fa_loop tb flow fhi j nHcgs uvbg niter necgs y r =
    (case fa_pass tb flow fhi j uvbg necgs y r of (y1, r1, neold) \<Rightarrow>
       if J_UV uvbg = 0 then (niter + 1, y1, r1)
       else
         (let nenew = (1 / 2) * (ne y1 + neold);
              y2 = y1\<lparr>ne := nenew\<rparr>;
              necgs2 = ne y2 * nHcgs
          in if \<bar>ne y2 - neold\<bar> < 1 / 10 ^ 4 then (niter + 1, y2, r1)
             else if niter + 1 < MAXITER
               then fa_loop tb flow fhi j nHcgs uvbg (niter + 1) necgs2 y2 r1
               else (niter + 1, y2, r1)))"
  by pat_completeness auto
termination
  by (relation "measure (\<lambda>(tb, flow, fhi, j, nHcgs, uvbg, niter, necgs, y, r). MAXITER - niter)")
    auto

declare fa_loop.simps [simp del]

text \<open>The interior branch up to the end of the loop (lines 318 to 387): the table
  position, the replacement of a zero guess, and the loop. The value is the triple of
  \<^verbatim>\<open>niter\<close>, \<open>y\<close> and \<open>r\<close> with which the loop is left.\<close>

definition fa_interior ::
  "rate_tables \<Rightarrow> real \<Rightarrow> real \<Rightarrow> UVBG \<Rightarrow> abundance \<Rightarrow> rates \<Rightarrow> nat \<times> abundance \<times> rates" where
  "fa_interior tb logT nHcgs uvbg y r =
    (let t = (logT - Tmin tb) / deltaT tb;
         j = c_int t;
         fhi = t - real_of_int j;
         flow = 1 - fhi;
         y = (if ne y = 0 then y\<lparr>ne := 1\<rparr> else y);
         necgs = ne y * nHcgs
     in fa_loop tb flow fhi j nHcgs uvbg 0 necgs y r)"

definition find_abundances_and_rates ::
  "rate_tables \<Rightarrow> real \<Rightarrow> real \<Rightarrow> UVBG \<Rightarrow> abundance \<Rightarrow> rates \<Rightarrow> error + abundance \<times> rates" where
  "find_abundances_and_rates tb logT nHcgs uvbg y r =
    (if logT \<le> Tmin tb
     then Inr (y\<lparr>nH0 := 1, nHe0 := YHELIUM, nHp := 0, nHep := 0, nHepp := 0, ne := 0\<rparr>, r)
     else if logT \<ge> Tmax
     then
       (let y = y\<lparr>nH0 := 0, nHe0 := 0, nHp := 1, nHep := 0, nHepp := YHELIUM\<rparr>
        in Inr (y\<lparr>ne := nHp y + 2 * nHepp y\<rparr>, r))
     else
       (case fa_interior tb logT nHcgs uvbg y r of (niter, y1, r1) \<Rightarrow>
          if niter \<ge> MAXITER then Inl (Endrun 13)
          else
            (let t = (logT - Tmin tb) / deltaT tb;
                 j = c_int t;
                 fhi = t - real_of_int j;
                 flow = 1 - fhi
             in Inr (y1, r1\<lparr>bH0 := interp_tab flow fhi j (BetaH0 tb),
                              bHep := interp_tab flow fhi j (BetaHep tb),
                              bff := interp_tab flow fhi j (Betaff tb)\<rparr>))))"

section \<open>The rate tables: \<^verbatim>\<open>MakeCoolingTable\<close>\<close>

text \<open>The entries of the ten tables at temperature \<open>T\<close>. The source first zeroes the
  entry and then overwrites it under a guard; the entry functions give the value the
  entry holds at the end of the loop body. The preprocessor switch \<^verbatim>\<open>NEW_RATES\<close> is the
  boolean \<open>new\<close>.\<close>

definition eV_to_K :: real where
  "eV_to_K = 11606"

definition eV_to_erg :: real where
  "eV_to_erg = 1.60184 / 10 ^ 12"

definition Tfact_of :: "real \<Rightarrow> real" where
  "Tfact_of T = 1 / (1 + sqrt (T / 10 ^ 5))"

definition sw_poly :: "real \<Rightarrow> real \<Rightarrow> real \<Rightarrow> real \<Rightarrow> real \<Rightarrow> real \<Rightarrow> real \<Rightarrow> real" where
  \<comment> \<open>the exponent of the Scholz-Walters fit\<close>
  "sw_poly b0 b1 b2 b3 b4 b5 y =
    b0 + b1 * y + b2 * y * y + b3 * y * y * y + b4 * y * y * y * y + b5 * y * y * y * y * y"

definition BetaH0_entry :: "bool \<Rightarrow> real \<Rightarrow> real" where
  "BetaH0_entry new T =
    (let v = (if 118348 / T < 70 then 7.5 / 10 ^ 19 * exp (- 118348 / T) * Tfact_of T else 0)
     in if new \<and> T \<ge> 2 * 10 ^ 3 \<and> T < 10 ^ 8 \<and> \<not> (T \<ge> 2 * 10 ^ 3 \<and> T < 6 * 10 ^ 4)
        then
          (let y = ln T;
               E1s_2 = 10.2;
               Gamma1s_2s =
                 (if T \<ge> 6 * 10 ^ 4 \<and> T < 6 * 10 ^ 6
                  then exp (sw_poly (2.869759 * 10 ^ 2) (- 1.077956 * 10 ^ 2) (1.524107 * 10)
                              (- 1.080538) (3.836975 / 10 ^ 2) (- 5.467273 / 10 ^ 4) y)
                  else exp (sw_poly (- 2.7604708 * 10 ^ 3) (7.9339351 * 10 ^ 2) (- 9.1198462 * 10)
                              5.1993362 (- 1.4685343 / 10) (1.6404093 / 10 ^ 3) y));
               Gamma1s_2p =
                 (if T \<ge> 6 * 10 ^ 4 \<and> T < 6 * 10 ^ 6
                  then exp (sw_poly (5.279996 * 10 ^ 2) (- 1.939399 * 10 ^ 2) (2.718982 * 10)
                              (- 1.883399) (6.462462 / 10 ^ 2) (- 8.811076 / 10 ^ 4) y)
                  else exp (sw_poly (- 2.8133632 * 10 ^ 3) (8.1509685 * 10 ^ 2) (- 9.4418414 * 10)
                              5.4280565 (- 1.5467120 / 10) (1.7439112 / 10 ^ 3) y));
               T_eV = T / eV_to_K
           in E1s_2 * eV_to_erg * (Gamma1s_2s + Gamma1s_2p) * exp (- E1s_2 / T_eV))
        else v)"

definition BetaHep_entry :: "real \<Rightarrow> real" where
  "BetaHep_entry T =
    (if 473638 / T < 70
     then 5.54 / 10 ^ 17 * T powr (- 0.397) * exp (- 473638 / T) * Tfact_of T else 0)"

definition Betaff_entry :: "real \<Rightarrow> real" where
  "Betaff_entry T =
    1.43 / 10 ^ 27 * sqrt T
      * (1.1 + 0.34 * exp (- (5.5 - log 10 T) * (5.5 - log 10 T) / 3))"

definition AlphaHp_entry :: "bool \<Rightarrow> real \<Rightarrow> real" where
  "AlphaHp_entry new T =
    (if new then 6.28 / 10 ^ 11 * (T / 1000) powr (- 0.2) / (1 + (T / 10 ^ 6) powr 0.7) / sqrt T
     else 8.4 / 10 ^ 11 * (T / 1000) powr (- 0.2) / (1 + (T / 10 ^ 6) powr 0.7) / sqrt T)"

definition AlphaHep_entry :: "real \<Rightarrow> real" where
  "AlphaHep_entry T = 1.5 / 10 ^ 10 * T powr (- 0.6353)"

definition AlphaHepp_entry :: "bool \<Rightarrow> real \<Rightarrow> real" where
  "AlphaHepp_entry new T =
    (if new
     then 3.36 / 10 ^ 10 * (T / 1000) powr (- 0.2) / (1 + (T / (4 * 10 ^ 6)) powr 0.7) / sqrt T
     else 4 * AlphaHp_entry new T)"

definition Alphad_entry :: "real \<Rightarrow> real" where
  "Alphad_entry T =
    (if 470000 / T < 70
     then 1.9 / 10 ^ 3 * T powr (- 1.5) * exp (- 470000 / T) * (1 + 0.3 * exp (- 94000 / T))
     else 0)"

definition voronov :: "real \<Rightarrow> real \<Rightarrow> real \<Rightarrow> real \<Rightarrow> real \<Rightarrow> real \<Rightarrow> real" where
  \<comment> \<open>the Voronov 97 fit, with \<open>U = dE / T_eV\<close>\<close>
  "voronov dE P A X K T =
    (let T_eV = T / eV_to_K; U = dE / T_eV
     in A * (1 + P * sqrt U) * U powr K * exp (- U) / (X + U))"

definition GammaeH0_entry :: "bool \<Rightarrow> real \<Rightarrow> real" where
  "GammaeH0_entry new T =
    (if new then voronov 13.6 0 (0.291 / 10 ^ 7) 0.232 0.39 T
     else if 157809.1 / T < 70
       then 5.85 / 10 ^ 11 * sqrt T * exp (- 157809.1 / T) * Tfact_of T else 0)"

definition GammaeHe0_entry :: "bool \<Rightarrow> real \<Rightarrow> real" where
  "GammaeHe0_entry new T =
    (if new then voronov 24.6 0 (0.175 / 10 ^ 7) 0.18 0.35 T
     else if 285335.4 / T < 70
       then 2.38 / 10 ^ 11 * sqrt T * exp (- 285335.4 / T) * Tfact_of T else 0)"

definition GammaeHep_entry :: "bool \<Rightarrow> real \<Rightarrow> real" where
  "GammaeHep_entry new T =
    (if new then voronov 54.4 1 (0.205 / 10 ^ 8) 0.265 0.25 T
     else if 631515 / T < 70
       then 5.68 / 10 ^ 12 * sqrt T * exp (- 631515 / T) * Tfact_of T else 0)"

text \<open>The body of the loop over \<open>i\<close>, and the function: the lower bound of the grid, the
  grid step, then the loop over \<open>i = 0, ..., NCOOLTAB\<close>.\<close>

definition MakeCoolingTable_entry :: "bool \<Rightarrow> int \<Rightarrow> rate_tables \<Rightarrow> rate_tables" where
  "MakeCoolingTable_entry new i tb =
    (let T = 10 powr (Tmin tb + deltaT tb * real_of_int i)
     in tb\<lparr>BetaH0 := (BetaH0 tb)(i := BetaH0_entry new T),
            BetaHep := (BetaHep tb)(i := BetaHep_entry T),
            Betaff := (Betaff tb)(i := Betaff_entry T),
            AlphaHp := (AlphaHp tb)(i := AlphaHp_entry new T),
            AlphaHep := (AlphaHep tb)(i := AlphaHep_entry T),
            AlphaHepp := (AlphaHepp tb)(i := AlphaHepp_entry new T),
            Alphad := (Alphad tb)(i := Alphad_entry T),
            GammaeH0 := (GammaeH0 tb)(i := GammaeH0_entry new T),
            GammaeHe0 := (GammaeHe0 tb)(i := GammaeHe0_entry new T),
            GammaeHep := (GammaeHep tb)(i := GammaeHep_entry new T)\<rparr>)"

definition MakeCoolingTable :: "bool \<Rightarrow> real \<Rightarrow> rate_tables \<Rightarrow> rate_tables" where
  "MakeCoolingTable new MinGasTemp tb =
    (let tb = (if MinGasTemp > 0 then tb\<lparr>Tmin := log 10 (0.1 * MinGasTemp)\<rparr>
               else tb\<lparr>Tmin := 1\<rparr>);
         tb = tb\<lparr>deltaT := (Tmax - Tmin tb) / real_of_int NCOOLTAB\<rparr>
     in fold (MakeCoolingTable_entry new) [0..NCOOLTAB] tb)"

section \<open>The state of the cooling module\<close>

text \<open>The redshift table read from the TREECOOL file: seven arrays of \<open>TABLESIZE\<close>
  entries and the number \<^verbatim>\<open>nheattab\<close> of rows in use.\<close>

record ionize_table =
  inlogz :: "int \<Rightarrow> real"
  gH0 :: "int \<Rightarrow> real"
  gHe :: "int \<Rightarrow> real"
  gHep :: "int \<Rightarrow> real"
  eH0 :: "int \<Rightarrow> real"
  eHe :: "int \<Rightarrow> real"
  eHep :: "int \<Rightarrow> real"
  nheattab :: int

text \<open>The file-scope variables of cooling.c. Two entries stand for code that is not in
  cooling.c: \<open>GAMMA_MINUS1\<close> is a macro of a header, taken as a parameter, and
  \<open>metal_rate redshift lognH logT\<close> is the value that \<^verbatim>\<open>interp_eval\<close> returns on the metal
  cooling table \<^verbatim>\<open>MC\<close>.\<close>

record cool_state =
  GAMMA_MINUS1 :: real
  CoolingNoMetal :: int
  CoolingNoPrimordial :: int
  tabs :: rate_tables
  units_density :: real
  units_uu :: real
  units_time :: real
  treecool :: ionize_table
  GlobalUVBG :: UVBG
  metal_rate :: "real \<Rightarrow> real \<Rightarrow> real \<Rightarrow> real"
  UVF_disabled :: int

definition zero_UVBG :: UVBG where
  \<comment> \<open>the result of \<^verbatim>\<open>memset(&uvbg, 0, sizeof(struct UVBG))\<close>\<close>
  "zero_UVBG = \<lparr>J_UV = 0, gJH0 = 0, gJHe0 = 0, gJHep = 0, epsH0 = 0, epsHe0 = 0, epsHep = 0\<rparr>"

text \<open>Local structs are declared without initializer in the source. The functions below
  write every field they later read (as long as the table grid is increasing), so the
  models start a local struct from the following values, which no result depends on.\<close>

definition local_rates :: rates where
  "local_rates = \<lparr>aHp = 0, aHep = 0, aHepp = 0, ad = 0, geH0 = 0, geHe0 = 0, geHep = 0,
     bH0 = 0, bHep = 0, bff = 0\<rparr>"

definition local_abundance :: abundance where
  "local_abundance = \<lparr>ne = 0, nH0 = 0, nHp = 0, nHe0 = 0, nHep = 0, nHepp = 0\<rparr>"

section \<open>The equilibrium temperature: \<^verbatim>\<open>solve_equilibrium_temp\<close>\<close>

text \<open>The do-loop; its state is \<^verbatim>\<open>iter\<close>, \<^verbatim>\<open>temp\<close>, \<^verbatim>\<open>max\<close>, \<open>y\<close> and \<open>r\<close>.\<close>

function set_loop ::
  "cool_state \<Rightarrow> real \<Rightarrow> real \<Rightarrow> UVBG \<Rightarrow> nat \<Rightarrow> real \<Rightarrow> real \<Rightarrow> abundance \<Rightarrow> rates
    \<Rightarrow> error + nat \<times> real \<times> abundance" where
  "set_loop st u nHcgs uvbg iter temp mx y r =
    (let ne_old = ne y
     in case find_abundances_and_rates (tabs st) (log 10 temp) nHcgs uvbg y r of
          Inl e \<Rightarrow> Inl e
        | Inr (y1, r1) \<Rightarrow>
            (let temp_old = temp;
                 mu = (1 + 4 * YHELIUM) / (1 + YHELIUM + ne y1);
                 temp_new = GAMMA_MINUS1 st / BOLTZMANN * u * PROTONMASS * mu;
                 mx1 = DMAX mx (temp_new / (1 + YHELIUM + ne y1)
                                 * \<bar>(ne y1 - ne_old) / (temp_new - temp_old + 1)\<bar>);
                 temp1 = temp_old + (temp_new - temp_old) / (1 + mx1)
             in if \<bar>temp1 - temp_old\<bar> > 1 / 10 ^ 3 * temp1 \<and> iter + 1 < MAXITER
                then set_loop st u nHcgs uvbg (iter + 1) temp1 mx1 y1 r1
                else Inr (iter + 1, temp1, y1)))"
  by pat_completeness auto
termination
  by (relation "measure (\<lambda>(st, u, nHcgs, uvbg, iter, temp, mx, y, r). MAXITER - iter)") auto

declare set_loop.simps [simp del]

definition solve_equilibrium_temp ::
  "cool_state \<Rightarrow> real \<Rightarrow> real \<Rightarrow> UVBG \<Rightarrow> abundance \<Rightarrow> error + real \<times> abundance" where
  "solve_equilibrium_temp st u nHcgs uvbg y =
    (let mu = (1 + 4 * YHELIUM) / (1 + YHELIUM + ne y);
         temp = GAMMA_MINUS1 st / BOLTZMANN * u * PROTONMASS * mu
     in case set_loop st u nHcgs uvbg 0 temp 0 y local_rates of
          Inl e \<Rightarrow> Inl e
        | Inr (iter, temp1, y1) \<Rightarrow>
            if iter \<ge> MAXITER then Inl (Endrun 12) else Inr (temp1, y1))"

section \<open>The cooling rate\<close>

definition PrimordialCoolingRate ::
  "cool_state \<Rightarrow> real \<Rightarrow> real \<Rightarrow> UVBG \<Rightarrow> real \<Rightarrow> real \<Rightarrow> error + real \<times> real" where
  \<comment> \<open>the result is \<open>Heat - Lambda\<close> and the new \<^verbatim>\<open>*nelec\<close>\<close>
  "PrimordialCoolingRate st logT nHcgs uvbg nelec redshift =
    (let tb = tabs st;
         logT = (if logT \<le> Tmin tb then Tmin tb + 0.5 * deltaT tb else logT);
         y = local_abundance\<lparr>ne := nelec\<rparr>
     in if logT < Tmax
        then
          (case find_abundances_and_rates tb logT nHcgs uvbg y local_rates of
             Inl e \<Rightarrow> Inl e
           | Inr (y, r) \<Rightarrow>
               (let T = 10 powr logT;
                    LambdaExcH0 = bH0 r * ne y * nH0 y;
                    LambdaExcHep = bHep r * ne y * nHep y;
                    LambdaExc = LambdaExcH0 + LambdaExcHep;
                    LambdaIonH0 = 2.18 / 10 ^ 11 * geH0 r * ne y * nH0 y;
                    LambdaIonHe0 = 3.94 / 10 ^ 11 * geHe0 r * ne y * nHe0 y;
                    LambdaIonHep = 8.72 / 10 ^ 11 * geHep r * ne y * nHep y;
                    LambdaIon = LambdaIonH0 + LambdaIonHe0 + LambdaIonHep;
                    LambdaRecHp = 1.036 / 10 ^ 16 * T * ne y * (aHp r * nHp y);
                    LambdaRecHep = 1.036 / 10 ^ 16 * T * ne y * (aHep r * nHep y);
                    LambdaRecHepp = 1.036 / 10 ^ 16 * T * ne y * (aHepp r * nHepp y);
                    LambdaRecHepd = 6.526 / 10 ^ 11 * ad r * ne y * nHep y;
                    LambdaRec = LambdaRecHp + LambdaRecHep + LambdaRecHepp + LambdaRecHepd;
                    LambdaFF = bff r * (nHp y + nHep y + 4 * nHepp y) * ne y;
                    Lambda = LambdaExc + LambdaIon + LambdaRec + LambdaFF;
                    LambdaCmptn = 5.65 / 10 ^ 36 * ne y * (T - 2.73 * (1 + redshift))
                                    * (1 + redshift) powr 4 / nHcgs;
                    Lambda = Lambda + LambdaCmptn;
                    Heat = (if J_UV uvbg \<noteq> 0
                            then 0 + (nH0 y * epsH0 uvbg + nHe0 y * epsHe0 uvbg
                                       + nHep y * epsHep uvbg) / nHcgs
                            else 0)
                in Inr (Heat - Lambda, ne y)))
        else
          (let Heat = 0;
               y = y\<lparr>nHp := 1, nHep := 0, nHepp := YHELIUM\<rparr>;
               y = y\<lparr>ne := nHp y + 2 * nHepp y\<rparr>;
               T = 10 powr logT;
               LambdaFF = 1.42 / 10 ^ 27 * sqrt T
                            * (1.1 + 0.34 * exp (- (5.5 - logT) * (5.5 - logT) / 3))
                            * (nHp y + 4 * nHepp y) * ne y;
               LambdaCmptn = 5.65 / 10 ^ 36 * ne y * (T - 2.73 * (1 + redshift))
                               * (1 + redshift) powr 4 / nHcgs;
               Lambda = LambdaFF + LambdaCmptn
           in Inr (Heat - Lambda, ne y)))"

definition TableMetalCoolingRate :: "cool_state \<Rightarrow> real \<Rightarrow> real \<Rightarrow> real \<Rightarrow> real" where
  "TableMetalCoolingRate st redshift logT lognH = metal_rate st redshift lognH logT"

definition CoolingRateFromU ::
  "cool_state \<Rightarrow> real \<Rightarrow> real \<Rightarrow> UVBG \<Rightarrow> real \<Rightarrow> real \<Rightarrow> real \<Rightarrow> error + real \<times> real" where
  \<comment> \<open>the result is \<open>LambdaNet\<close> and the new \<^verbatim>\<open>*ne_guess\<close>\<close>
  "CoolingRateFromU st u nHcgs uvbg ne_guess Z Time =
    (if CoolingNoPrimordial st \<noteq> 0 then Inr (0, ne_guess)
     else
       (case solve_equilibrium_temp st u nHcgs uvbg (local_abundance\<lparr>ne := ne_guess\<rparr>) of
          Inl e \<Rightarrow> Inl e
        | Inr (temp, y) \<Rightarrow>
            (let logT = log 10 temp;
                 redshift = 1 / Time - 1
             in case PrimordialCoolingRate st logT nHcgs uvbg (ne y) redshift of
                  Inl e \<Rightarrow> Inl e
                | Inr (LambdaNet, ne1) \<Rightarrow>
                    if CoolingNoMetal st = 0
                    then
                      (let lognH = log 10 nHcgs
                       in Inr (LambdaNet - Z * TableMetalCoolingRate st redshift logT lognH, ne1))
                    else Inr (LambdaNet, ne1))))"

definition ConvertInternalEnergy2Temperature :: "cool_state \<Rightarrow> real \<Rightarrow> real \<Rightarrow> real" where
  "ConvertInternalEnergy2Temperature st u n_e =
    (if CoolingNoPrimordial st \<noteq> 0 then 0
     else
       (let mu = (1 + 4 * YHELIUM) / (1 + YHELIUM + n_e);
            u = u * units_uu st
        in GAMMA_MINUS1 st / BOLTZMANN * u * PROTONMASS * mu))"

section \<open>\<^verbatim>\<open>GetCoolingTime\<close> and \<^verbatim>\<open>DoCooling\<close>\<close>

definition GetCoolingTime ::
  "cool_state \<Rightarrow> real \<Rightarrow> real \<Rightarrow> UVBG \<Rightarrow> real \<Rightarrow> real \<Rightarrow> real \<Rightarrow> error + real \<times> real" where
  \<comment> \<open>the result is the cooling time and the new \<^verbatim>\<open>*ne_guess\<close>\<close>
  "GetCoolingTime st u_old rho uvbg ne_guess Z Time =
    (if CoolingNoPrimordial st \<noteq> 0 then Inr (0, ne_guess)
     else
       (let rho = rho * units_density st;
            u_old = u_old * units_uu st;
            nHcgs = HYDROGEN_MASSFRAC * rho / PROTONMASS;
            ratefact = nHcgs * nHcgs / rho;
            u = u_old
        in case CoolingRateFromU st u nHcgs uvbg ne_guess Z Time of
             Inl e \<Rightarrow> Inl e
           | Inr (LambdaNet, ne1) \<Rightarrow>
               if LambdaNet \<ge> 0 then Inr (0, ne1)
               else
                 (let coolingtime = u_old / (- ratefact * LambdaNet);
                      coolingtime = coolingtime / units_time st
                  in Inr (coolingtime, ne1))))"

text \<open>The two bracketing loops of \<^verbatim>\<open>DoCooling\<close> have no iteration bound: they are
  partial functions, and \<open>None\<close> is a loop that never ends. The state of a loop is
  \<^verbatim>\<open>u_upper\<close>, \<^verbatim>\<open>u_lower\<close> and \<^verbatim>\<open>*ne_guess\<close>.\<close>

partial_function (option) bracket_heating ::
  "cool_state \<Rightarrow> real \<Rightarrow> real \<Rightarrow> real \<Rightarrow> real \<Rightarrow> UVBG \<Rightarrow> real \<Rightarrow> real
    \<Rightarrow> real \<Rightarrow> real \<Rightarrow> real \<Rightarrow> (error + real \<times> real \<times> real) option" where
  "bracket_heating st u_old ratefact dt nHcgs uvbg Z Time u_upper u_lower ne_guess =
    (case CoolingRateFromU st u_upper nHcgs uvbg ne_guess Z Time of
       Inl e \<Rightarrow> Some (Inl e)
     | Inr (L, ne1) \<Rightarrow>
         if u_upper - u_old - ratefact * L * dt < 0
         then bracket_heating st u_old ratefact dt nHcgs uvbg Z Time
                (u_upper * 1.1) (u_lower * 1.1) ne1
         else Some (Inr (u_upper, u_lower, ne1)))"

partial_function (option) bracket_cooling ::
  "cool_state \<Rightarrow> real \<Rightarrow> real \<Rightarrow> real \<Rightarrow> real \<Rightarrow> UVBG \<Rightarrow> real \<Rightarrow> real
    \<Rightarrow> real \<Rightarrow> real \<Rightarrow> real \<Rightarrow> (error + real \<times> real \<times> real) option" where
  "bracket_cooling st u_old ratefact dt nHcgs uvbg Z Time u_upper u_lower ne_guess =
    (case CoolingRateFromU st u_lower nHcgs uvbg ne_guess Z Time of
       Inl e \<Rightarrow> Some (Inl e)
     | Inr (L, ne1) \<Rightarrow>
         if u_lower - u_old - ratefact * L * dt > 0
         then bracket_cooling st u_old ratefact dt nHcgs uvbg Z Time
                (u_upper / 1.1) (u_lower / 1.1) ne1
         else Some (Inr (u_upper, u_lower, ne1)))"

text \<open>The bisection do-loop, bounded by \<open>MAXITER\<close>; the value is \<^verbatim>\<open>iter\<close>, \<open>u\<close> and
  \<^verbatim>\<open>*ne_guess\<close> at the exit.\<close>

function bisection ::
  "cool_state \<Rightarrow> real \<Rightarrow> real \<Rightarrow> real \<Rightarrow> real \<Rightarrow> UVBG \<Rightarrow> real \<Rightarrow> real
    \<Rightarrow> nat \<Rightarrow> real \<Rightarrow> real \<Rightarrow> real \<Rightarrow> error + nat \<times> real \<times> real" where
  "bisection st u_old ratefact dt nHcgs uvbg Z Time iter u_lower u_upper ne_guess =
    (let u = 0.5 * (u_lower + u_upper)
     in case CoolingRateFromU st u nHcgs uvbg ne_guess Z Time of
          Inl e \<Rightarrow> Inl e
        | Inr (LambdaNet, ne1) \<Rightarrow>
            (let u_upper1 = (if u - u_old - ratefact * LambdaNet * dt > 0 then u else u_upper);
                 u_lower1 = (if u - u_old - ratefact * LambdaNet * dt > 0 then u_lower else u);
                 du = u_upper1 - u_lower1
             in if \<bar>du / u\<bar> > 1 / 10 ^ 6 \<and> iter + 1 < MAXITER
                then bisection st u_old ratefact dt nHcgs uvbg Z Time
                       (iter + 1) u_lower1 u_upper1 ne1
                else Inr (iter + 1, u, ne1)))"
  by pat_completeness auto
termination
  by (relation "measure (\<lambda>(st, u_old, ratefact, dt, nHcgs, uvbg, Z, Time, iter, rest).
        MAXITER - iter)") auto

declare bisection.simps [simp del]

definition DoCooling ::
  "cool_state \<Rightarrow> real \<Rightarrow> real \<Rightarrow> real \<Rightarrow> UVBG \<Rightarrow> real \<Rightarrow> real \<Rightarrow> real
    \<Rightarrow> (error + real \<times> real) option" where
  \<comment> \<open>the result is the returned internal energy and the new \<^verbatim>\<open>*ne_guess\<close>\<close>
  "DoCooling st u_old rho dt uvbg ne_guess Z Time =
    (if CoolingNoPrimordial st \<noteq> 0 then Some (Inr (0, ne_guess))
     else
       (let rho = rho * units_density st;
            u_old = u_old * units_uu st;
            dt = dt * units_time st;
            nHcgs = HYDROGEN_MASSFRAC * rho / PROTONMASS;
            ratefact = nHcgs * nHcgs / rho;
            u = u_old;
            u_lower = u;
            u_upper = u
        in case CoolingRateFromU st u nHcgs uvbg ne_guess Z Time of
             Inl e \<Rightarrow> Some (Inl e)
           | Inr (LambdaNet, ne1) \<Rightarrow>
               (case (if u - u_old - ratefact * LambdaNet * dt < 0
                      then bracket_heating st u_old ratefact dt nHcgs uvbg Z Time
                             (u_upper * sqrt 1.1) (u_lower / sqrt 1.1) ne1
                      else Some (Inr (u_upper, u_lower, ne1))) of
                  None \<Rightarrow> None
                | Some (Inl e) \<Rightarrow> Some (Inl e)
                | Some (Inr (u_upper, u_lower, ne2)) \<Rightarrow>
                    (case (if u - u_old - ratefact * LambdaNet * dt > 0
                           then bracket_cooling st u_old ratefact dt nHcgs uvbg Z Time
                                  (u_upper * sqrt 1.1) (u_lower / sqrt 1.1) ne2
                           else Some (Inr (u_upper, u_lower, ne2))) of
                       None \<Rightarrow> None
                     | Some (Inl e) \<Rightarrow> Some (Inl e)
                     | Some (Inr (u_upper, u_lower, ne3)) \<Rightarrow>
                         (case bisection st u_old ratefact dt nHcgs uvbg Z Time
                                 0 u_lower u_upper ne3 of
                            Inl e \<Rightarrow> Some (Inl e)
                          | Inr (iter, u, ne4) \<Rightarrow>
                              if iter \<ge> MAXITER then Some (Inl (Endrun 10))
                              else Some (Inr (u / units_uu st, ne4)))))))"

section \<open>The UV background table\<close>

definition TABLESIZE :: int where
  "TABLESIZE = 500"

definition JAMPL :: real where
  "JAMPL = 1"

type_synonym treecool_row = "real \<times> real \<times> real \<times> real \<times> real \<times> real \<times> real"

text \<open>\<^verbatim>\<open>ReadIonizeParams\<close>: the file is the list of the rows that \<^verbatim>\<open>fscanf\<close> parses from
  it, or \<open>None\<close> when it cannot be opened. The rows are stored from index 0, at most
  \<open>TABLESIZE\<close> of them; the count of rows stops at the first zero of \<^verbatim>\<open>gH0\<close>.\<close>

fun store_rows :: "ionize_table \<Rightarrow> int \<Rightarrow> treecool_row list \<Rightarrow> ionize_table" where
  "store_rows t i [] = t"
| "store_rows t i ((z, g0, g1, g2, e0, e1, e2) # rows) =
    (if i < TABLESIZE
     then store_rows (t\<lparr>inlogz := (inlogz t)(i := z), gH0 := (gH0 t)(i := g0),
                         gHe := (gHe t)(i := g1), gHep := (gHep t)(i := g2),
                         eH0 := (eH0 t)(i := e0), eHe := (eHe t)(i := e1),
                         eHep := (eHep t)(i := e2)\<rparr>) (i + 1) rows
     else t)"

function count_rows :: "(int \<Rightarrow> real) \<Rightarrow> int \<Rightarrow> int \<Rightarrow> int" where
  "count_rows g i n =
    (if i < TABLESIZE then (if g i \<noteq> 0 then count_rows g (i + 1) (n + 1) else n) else n)"
  by pat_completeness auto
termination
  by (relation "measure (\<lambda>(g, i, n). nat (TABLESIZE - i))") auto

declare count_rows.simps [simp del]

definition ReadIonizeParams :: "treecool_row list option \<Rightarrow> ionize_table \<Rightarrow> error + ionize_table" where
  "ReadIonizeParams file t =
    (case file of
       None \<Rightarrow> Inl (Endrun 456)
     | Some rows \<Rightarrow>
         (let t = t\<lparr>gH0 := (\<lambda>i. if 0 \<le> i \<and> i < TABLESIZE then 0 else gH0 t i)\<rparr>;
              t = store_rows t 0 rows
          in Inr (t\<lparr>nheattab := count_rows (gH0 t) 0 0\<rparr>)))"

text \<open>\<^verbatim>\<open>IonizeParamsTable\<close>. The loop finds \<^verbatim>\<open>ilow\<close>; its state is \<open>i\<close> and \<^verbatim>\<open>ilow\<close>.\<close>

function find_ilow :: "ionize_table \<Rightarrow> real \<Rightarrow> int \<Rightarrow> int \<Rightarrow> int" where
  "find_ilow t logz i ilow =
    (if i < nheattab t
     then (if inlogz t i < logz then find_ilow t logz (i + 1) i else ilow)
     else ilow)"
  by pat_completeness auto
termination
  by (relation "measure (\<lambda>(t, logz, i, ilow). nat (nheattab t - i))") auto

declare find_ilow.simps [simp del]

definition loglog_interp :: "real \<Rightarrow> real \<Rightarrow> real \<Rightarrow> real \<Rightarrow> real" where
  \<comment> \<open>\<^verbatim>\<open>JAMPL * pow(10., (dzhi * log10(lo) + dzlow * log10(hi)) / (dzlow + dzhi))\<close>\<close>
  "loglog_interp dzlow dzhi lo hi =
    JAMPL * 10 powr ((dzhi * log 10 lo + dzlow * log 10 hi) / (dzlow + dzhi))"

definition IonizeParamsTable :: "real \<Rightarrow> cool_state \<Rightarrow> cool_state" where
  "IonizeParamsTable Time st =
    (let t = treecool st;
         redshift = 1 / Time - 1;
         logz = log 10 (redshift + 1);
         ilow = find_ilow t logz 0 0;
         dzlow = logz - inlogz t ilow;
         dzhi = inlogz t (ilow + 1) - logz
     in if logz > inlogz t (nheattab t - 1) \<or> gH0 t ilow = 0 \<or> gH0 t (ilow + 1) = 0
           \<or> nheattab t = 0
        then st\<lparr>GlobalUVBG := zero_UVBG\<rparr>
        else
          st\<lparr>GlobalUVBG := (GlobalUVBG st)\<lparr>
               J_UV := 1 / 10 ^ 21,
               gJH0 := loglog_interp dzlow dzhi (gH0 t ilow) (gH0 t (ilow + 1)),
               gJHe0 := loglog_interp dzlow dzhi (gHe t ilow) (gHe t (ilow + 1)),
               gJHep := loglog_interp dzlow dzhi (gHep t ilow) (gHep t (ilow + 1)),
               epsH0 := loglog_interp dzlow dzhi (eH0 t ilow) (eH0 t (ilow + 1)),
               epsHe0 := loglog_interp dzlow dzhi (eHe t ilow) (eHe t (ilow + 1)),
               epsHep := loglog_interp dzlow dzhi (eHep t ilow) (eHep t (ilow + 1))\<rparr>\<rparr>)"

definition IonizeParams :: "real \<Rightarrow> cool_state \<Rightarrow> cool_state" where
  "IonizeParams Time st = (if CoolingNoPrimordial st \<noteq> 0 then st else IonizeParamsTable Time st)"

section \<open>\<^verbatim>\<open>InitCool\<close>\<close>

text \<open>What the files named in the parameters hold: the rows of a TREECOOL file (or
  \<open>None\<close> when it cannot be opened), for a metal cooling file the dataset
  \<^verbatim>\<open>MetallicityInSolar_bins\<close> and the interpolant set up from its other datasets, for a
  UV fluctuation file the first entry of \<^verbatim>\<open>Zreion_Table\<close>.\<close>

record cool_files =
  treecool_rows :: "string \<Rightarrow> treecool_row list option"
  metal_bins :: "string \<Rightarrow> real list"
  metal_interp :: "string \<Rightarrow> real \<Rightarrow> real \<Rightarrow> real \<Rightarrow> real"
  uvf_table0 :: "string \<Rightarrow> real"

definition InitMetalCooling :: "cool_files \<Rightarrow> string \<Rightarrow> cool_state \<Rightarrow> error + cool_state" where
  "InitMetalCooling fs MetalCoolFile st =
    (let tabbedmet = metal_bins fs MetalCoolFile
     in if length tabbedmet \<noteq> 1 \<or> hd tabbedmet \<noteq> 0 then Inl (Endrun 123)
        else Inr (st\<lparr>metal_rate := metal_interp fs MetalCoolFile\<rparr>))"

definition InitUVF :: "cool_files \<Rightarrow> string \<Rightarrow> cool_state \<Rightarrow> error + cool_state" where
  "InitUVF fs UVFluctuationFile st =
    (if length UVFluctuationFile = 0 then Inr (st\<lparr>UVF_disabled := 1\<rparr>)
     else
       (let st = st\<lparr>UVF_disabled := 0\<rparr>
        in if uvf_table0 fs UVFluctuationFile < 0.01 \<or> uvf_table0 fs UVFluctuationFile > 100
           then Inl (Endrun 123) else Inr st))"

definition InitCool ::
  "cool_files \<Rightarrow> bool \<Rightarrow> int \<Rightarrow> real \<Rightarrow> string \<Rightarrow> string \<Rightarrow> string \<Rightarrow> real \<Rightarrow> real \<Rightarrow> real
    \<Rightarrow> real \<Rightarrow> real \<Rightarrow> cool_state \<Rightarrow> error + cool_state" where
  "InitCool fs new CoolingOn TimeBegin TreeCoolFile MetalCoolFile UVFluctuationFile
      UnitDensity_in_cgs HubbleParam UnitTime_in_s UnitPressure_in_cgs MinGasTemp st =
    (if CoolingOn = 0 then Inr (st\<lparr>CoolingNoPrimordial := 1, CoolingNoMetal := 1\<rparr>)
     else
       (let st = st\<lparr>units_density := UnitDensity_in_cgs * HubbleParam * HubbleParam,
                     units_time := UnitTime_in_s / HubbleParam,
                     units_uu := UnitPressure_in_cgs / UnitDensity_in_cgs\<rparr>;
            st = st\<lparr>tabs := MakeCoolingTable new MinGasTemp (tabs st)\<rparr>
        in case (if length TreeCoolFile = 0 then Inr (st\<lparr>CoolingNoPrimordial := 1\<rparr>)
                 else
                   (case ReadIonizeParams (treecool_rows fs TreeCoolFile) (treecool st) of
                      Inl e \<Rightarrow> Inl e
                    | Inr t \<Rightarrow> Inr (st\<lparr>CoolingNoPrimordial := 0, treecool := t\<rparr>))) of
             Inl e \<Rightarrow> Inl e
           | Inr st \<Rightarrow>
               (case (if length MetalCoolFile = 0 then Inr (st\<lparr>CoolingNoMetal := 1\<rparr>)
                      else InitMetalCooling fs MetalCoolFile (st\<lparr>CoolingNoMetal := 0\<rparr>)) of
                  Inl e \<Rightarrow> Inl e
                | Inr st \<Rightarrow> InitUVF fs UVFluctuationFile (IonizeParams TimeBegin st))))"

section \<open>The short-range tree walk: gravtree.c\<close>

text \<open>The walk reads the particle array \<^verbatim>\<open>P\<close> (the field \<open>P_data\<close>), the node array \<^verbatim>\<open>Nodes\<close> and
  \<^verbatim>\<open>Nextnode\<close>, which belong to the tree module. \<^verbatim>\<open>drift_particle\<close> and
  \<^verbatim>\<open>force_drift_node\<close> bring an entry to the current time before it is read: the arrays
  below hold the entries as they are after the drift. The macros \<^verbatim>\<open>NEAREST\<close>,
  \<^verbatim>\<open>BITFLAG_TOPLEVEL\<close> and \<^verbatim>\<open>BITFLAG_MULTIPLEPARTICLES\<close>, the two helpers on the bit
  flags of a node and \<^verbatim>\<open>treewalk_export_particle\<close> are declared outside gravtree.c and are
  parameters; the switch \<^verbatim>\<open>ADAPTIVE_GRAVSOFT_FORGAS\<close> is a boolean.\<close>

record particle_data =
  P_Pos :: "int \<Rightarrow> real"
  P_Mass :: real
  P_Type :: int
  P_Hsml :: real

record NODE =
  node_len :: real
  node_center :: "int \<Rightarrow> real"
  node_s :: "int \<Rightarrow> real"
  node_mass :: real
  node_bitflags :: int
  node_nextnode :: int
  node_sibling :: int
  node_maxsoft :: real

record tree_env =
  MaxPart :: int
  MaxNodes :: int
  P_data :: "int \<Rightarrow> particle_data"
  Nodes :: "int \<Rightarrow> NODE"
  Nextnode :: "int \<Rightarrow> int"
  ErrTolTheta :: real
  ErrTolForceAcc :: real
  ForceSoftening :: "int \<Rightarrow> real"
  Rcut0 :: real
  NEAREST :: "real \<Rightarrow> real"
  BITFLAG_TOPLEVEL :: nat
  BITFLAG_MULTIPLEPARTICLES :: nat
  extract_max_softening_type :: "int \<Rightarrow> int"
  maskout_different_softening_flag :: "int \<Rightarrow> int"
  treewalk_export_particle :: "int \<Rightarrow> int"
  ADAPTIVE_GRAVSOFT_FORGAS :: bool

text \<open>The query of the walk (\<^verbatim>\<open>TreeWalkQueryGravity\<close>) and the mode of the local walk.\<close>

record walk_query =
  q_Pos :: "int \<Rightarrow> real"
  q_Type :: int
  q_Soft :: real
  q_OldAcc :: real
  lv_mode :: int

text \<open>What one pass of the inner \<^verbatim>\<open>while(no >= 0)\<close> loop does with the entry \<open>no\<close>:
  it returns \<open>-1\<close> from the function, or it goes on with a new \<open>no\<close> without adding a
  force (\<^verbatim>\<open>continue\<close>), or it reaches the force kernel with the new \<open>no\<close> and the
  locals \<open>dx\<close>, \<open>dy\<close>, \<open>dz\<close>, \<open>r2\<close>, \<open>mass\<close>, \<open>h\<close>.\<close>

datatype walk_step =
  Return_failed
  | Continue int
  | Interact int real real real real real real

text \<open>The pieces of the branch for an internal node, in the order of the source:
  the distance to the centre of mass of the node, the test that ends the walk along a
  branch outside the cutoff, the opening criterion (Barnes-Hut when \<^verbatim>\<open>All.ErrTolTheta\<close>
  is not zero, the relative criterion with the test for a target inside the node
  otherwise), and the softening test with the softening length \<open>h\<close> it leaves.\<close>

definition node_dx :: "tree_env \<Rightarrow> walk_query \<Rightarrow> NODE \<Rightarrow> int \<Rightarrow> real" where
  "node_dx env q nop k = NEAREST env (node_s nop k - q_Pos q k)"

definition node_r2 :: "tree_env \<Rightarrow> walk_query \<Rightarrow> NODE \<Rightarrow> real" where
  "node_r2 env q nop =
    node_dx env q nop 0 * node_dx env q nop 0 + node_dx env q nop 1 * node_dx env q nop 1
      + node_dx env q nop 2 * node_dx env q nop 2"

definition outside_cutoff :: "tree_env \<Rightarrow> walk_query \<Rightarrow> NODE \<Rightarrow> bool" where
  "outside_cutoff env q nop =
    (let rcut = Rcut0 env;
         rcut2 = rcut * rcut;
         eff_dist = rcut + 0.5 * node_len nop;
         outside = (\<lambda>dist. dist < - eff_dist \<or> dist > eff_dist)
     in node_r2 env q nop > rcut2 \<and>
        (outside (NEAREST env (node_center nop 0 - q_Pos q 0))
         \<or> outside (NEAREST env (node_center nop 1 - q_Pos q 1))
         \<or> outside (NEAREST env (node_center nop 2 - q_Pos q 2))))"

definition opening_criterion :: "tree_env \<Rightarrow> walk_query \<Rightarrow> NODE \<Rightarrow> bool" where
  "opening_criterion env q nop =
    (let r2 = node_r2 env q nop;
         mass = node_mass nop;
         aold = ErrTolForceAcc env * q_OldAcc q
     in if ErrTolTheta env \<noteq> 0
        then node_len nop * node_len nop > r2 * ErrTolTheta env * ErrTolTheta env
        else mass * node_len nop * node_len nop > r2 * r2 * aold
             \<or> (\<bar>node_center nop 0 - q_Pos q 0\<bar> < 0.60 * node_len nop
                 \<and> \<bar>node_center nop 1 - q_Pos q 1\<bar> < 0.60 * node_len nop
                 \<and> \<bar>node_center nop 2 - q_Pos q 2\<bar> < 0.60 * node_len nop))"

definition query_soft :: "tree_env \<Rightarrow> walk_query \<Rightarrow> real" where
  \<comment> \<open>the local \<^verbatim>\<open>soft\<close>\<close>
  "query_soft env q = (if ADAPTIVE_GRAVSOFT_FORGAS env \<and> q_Type q = 0 then q_Soft q else 0)"

definition node_softening :: "tree_env \<Rightarrow> walk_query \<Rightarrow> NODE \<Rightarrow> bool \<times> real" where
  \<comment> \<open>whether the softening test opens the node, and \<open>h\<close>\<close>
  "node_softening env q nop =
    (let r2 = node_r2 env q nop;
         ptype = q_Type q
     in if \<not> ADAPTIVE_GRAVSOFT_FORGAS env
        then
          (let h0 = ForceSoftening env ptype;
               hn = ForceSoftening env (extract_max_softening_type env (node_bitflags nop))
           in if h0 < hn
              then (r2 < hn * hn
                      \<and> maskout_different_softening_flag env (node_bitflags nop) \<noteq> 0, hn)
              else (False, h0))
        else
          (let h0 = (if ptype = 0 then query_soft env q else ForceSoftening env ptype)
           in if h0 < node_maxsoft nop
              then (r2 < node_maxsoft nop * node_maxsoft nop, node_maxsoft nop)
              else (False, h0)))"

definition particle_h :: "tree_env \<Rightarrow> walk_query \<Rightarrow> particle_data \<Rightarrow> real" where
  \<comment> \<open>the softening length for a pair of particles\<close>
  "particle_h env q p =
    (let ptype = q_Type q
     in if ADAPTIVE_GRAVSOFT_FORGAS env
        then
          (let h = (if ptype = 0 then query_soft env q else ForceSoftening env ptype)
           in if P_Type p = 0
              then (if h < P_Hsml p then P_Hsml p else h)
              else (if h < ForceSoftening env (P_Type p)
                    then ForceSoftening env (P_Type p) else h))
        else
          (let h = ForceSoftening env ptype
           in if h < ForceSoftening env (P_Type p)
              then ForceSoftening env (P_Type p) else h))"

definition treeev_visit :: "tree_env \<Rightarrow> walk_query \<Rightarrow> int \<Rightarrow> walk_step" where
  "treeev_visit env q no =
    (if no < MaxPart env
     then
       (let p = P_data env no;
            dx = NEAREST env (P_Pos p 0 - q_Pos q 0);
            dy = NEAREST env (P_Pos p 1 - q_Pos q 1);
            dz = NEAREST env (P_Pos p 2 - q_Pos q 2);
            r2 = dx * dx + dy * dy + dz * dz;
            mass = P_Mass p;
            h = particle_h env q p
        in Interact (Nextnode env no) dx dy dz r2 mass h)
     else if no \<ge> MaxPart env + MaxNodes env
     then
       (if lv_mode q = 0 \<and> treewalk_export_particle env no = - 1 then Return_failed
        else Continue (Nextnode env (no - MaxNodes env)))
     else
       (let nop = Nodes env no
        in if lv_mode q = 1 \<and> bit (node_bitflags nop) (BITFLAG_TOPLEVEL env)
           then Continue (- 1)
           else if \<not> bit (node_bitflags nop) (BITFLAG_MULTIPLEPARTICLES env)
           then Continue (node_nextnode nop)
           else if outside_cutoff env q nop
           then Continue (node_sibling nop)
           else if opening_criterion env q nop
           then Continue (node_nextnode nop)
           else if fst (node_softening env q nop)
           then Continue (node_nextnode nop)
           else Interact (node_sibling nop)
                  (node_dx env q nop 0) (node_dx env q nop 1) (node_dx env q nop 2)
                  (node_r2 env q nop) (node_mass nop) (snd (node_softening env q nop))))"

section \<open>The synchronization driver: run.c\<close>

text \<open>C integer division and remainder truncate towards zero.\<close>

definition c_div :: "int \<Rightarrow> int \<Rightarrow> int" where
  "c_div a b = sgn a * sgn b * (\<bar>a\<bar> div \<bar>b\<bar>)"

definition c_rem :: "int \<Rightarrow> int \<Rightarrow> int" where
  "c_rem a b = sgn a * (\<bar>a\<bar> mod \<bar>b\<bar>)"

definition shl1 :: "int \<Rightarrow> int" where
  \<comment> \<open>\<^verbatim>\<open>1 << n\<close>, for a shift inside the width of \<^verbatim>\<open>int\<close>\<close>
  "shl1 n = 2 ^ nat n"

text \<open>The macros \<^verbatim>\<open>TIMEBINS\<close> and \<^verbatim>\<open>TIMEBASE\<close> come from a header that is not among the
  sources: they are parameters. The record holds the globals that
  \<^verbatim>\<open>find_next_sync_point_and_drift\<close> reads and writes. \<^verbatim>\<open>int\<close> variables are integers:
  the values stay inside the range of \<^verbatim>\<open>int\<close> as long as \<open>TIMEBINS \<le> 31\<close>, the times lie
  between 0 and \<open>2 * TIMEBASE < 2^31\<close> and a rank holds fewer than \<open>2^31\<close> particles.
  Two fields record calls of functions of other modules: \<open>snapshots\<close> the calls of
  \<^verbatim>\<open>savepositions\<close> (snapshot number and time), \<open>drift_calls\<close> the calls of
  \<^verbatim>\<open>drift_particle\<close> (particle and time).\<close>

record sync_state =
  TIMEBINS :: int
  TIMEBASE :: int
  Ti_Current :: int
  Ti_nextoutput :: int
  All_Time :: real
  All_TimeBegin :: real
  All_TimeMax :: real
  Timebase_interval :: real
  TimeStep :: real
  OutputListTimes :: "real list"
  SnapshotFileCount :: int
  snapshots :: "(int \<times> int) list"
  TimeBinCount :: "int \<Rightarrow> int"
  TimeBinActive :: "int \<Rightarrow> int"
  GlobNumForceUpdate :: int
  Flag_FullStep :: int
  TotNumPart :: int
  NumForcesSinceLastDomainDecomp :: int
  FirstInTimeBin :: "int \<Rightarrow> int"
  NextInTimeBin :: "int \<Rightarrow> int"
  FirstActiveParticle :: int
  NextActiveParticle :: "int \<Rightarrow> int"
  drift_calls :: "(int \<times> int) list"

text \<open>What the collectives need from another rank: its bin counts and its bin lists.\<close>

record rank_bins =
  r_TimeBinCount :: "int \<Rightarrow> int"
  r_FirstInTimeBin :: "int \<Rightarrow> int"
  r_NextInTimeBin :: "int \<Rightarrow> int"
  r_NextActiveParticle :: "int \<Rightarrow> int"

text \<open>The loop that finds the next kick time of one rank; its state is \<open>n\<close> and
  \<^verbatim>\<open>ti_next_kick\<close>.\<close>

function next_kick_loop :: "int \<Rightarrow> int \<Rightarrow> (int \<Rightarrow> int) \<Rightarrow> int \<Rightarrow> int \<Rightarrow> int" where
  "next_kick_loop tbins ti_current cnt n ti_next_kick =
    (if n < tbins
     then
       (if cnt n \<noteq> 0
        then
          (let ti_next_for_bin =
                 (if n > 0
                  then (let dt_bin = shl1 n in c_div ti_current dt_bin * dt_bin + dt_bin)
                  else ti_current)
           in next_kick_loop tbins ti_current cnt (n + 1)
                (if ti_next_for_bin < ti_next_kick then ti_next_for_bin else ti_next_kick))
        else next_kick_loop tbins ti_current cnt (n + 1) ti_next_kick)
     else ti_next_kick)"
  by pat_completeness auto
termination
  by (relation "measure (\<lambda>(tbins, ti_current, cnt, n, k). nat (tbins - n))") auto

declare next_kick_loop.simps [simp del]

definition ti_next_kick_of :: "sync_state \<Rightarrow> (int \<Rightarrow> int) \<Rightarrow> int" where
  \<comment> \<open>\<^verbatim>\<open>ti_next_kick\<close> of a rank whose bins hold \<open>cnt\<close>\<close>
  "ti_next_kick_of st cnt = next_kick_loop (TIMEBINS st) (Ti_Current st) cnt 0 (TIMEBASE st)"

text \<open>\<^verbatim>\<open>find_next_outputtime\<close>: the loop over the output list, then the test of its
  result.\<close>

fun outputtime_loop :: "sync_state \<Rightarrow> int \<Rightarrow> real list \<Rightarrow> int" where
  "outputtime_loop st ti_curr [] = - 1"
| "outputtime_loop st ti_curr (time # rest) =
    (if time \<ge> All_TimeBegin st \<and> time \<le> All_TimeMax st
     then
       (let ti = c_int (ln (time / All_TimeBegin st) / Timebase_interval st)
        in if ti \<ge> ti_curr then ti else outputtime_loop st ti_curr rest)
     else outputtime_loop st ti_curr rest)"

definition find_next_outputtime :: "sync_state \<Rightarrow> int \<Rightarrow> int" where
  "find_next_outputtime st ti_curr =
    (let ti_next = outputtime_loop st ti_curr (OutputListTimes st)
     in if ti_next = - 1 then 2 * TIMEBASE st else ti_next)"

text \<open>The loop that writes the snapshots due before the kick. It has no iteration bound
  in the source, so it is a partial function. \<^verbatim>\<open>set_global_time\<close> sets \<^verbatim>\<open>All.Time\<close>;
  \<^verbatim>\<open>savepositions\<close> is recorded by the snapshot number and the time it is called at.\<close>

partial_function (option) output_loop :: "int \<Rightarrow> int \<Rightarrow> sync_state \<Rightarrow> sync_state option" where
  "output_loop stopflag ti_next_kick_global st =
    (if ti_next_kick_global \<ge> Ti_nextoutput st \<and> Ti_nextoutput st \<ge> 0
     then
       (let st = st\<lparr>Ti_Current := Ti_nextoutput st\<rparr>;
            nexttime = All_TimeBegin st * exp (real_of_int (Ti_Current st) * Timebase_interval st);
            st = st\<lparr>All_Time := nexttime\<rparr>;
            st = st\<lparr>snapshots := snapshots st @ [(SnapshotFileCount st, Ti_Current st)],
                     SnapshotFileCount := SnapshotFileCount st + 1\<rparr>;
            st = st\<lparr>Ti_nextoutput := find_next_outputtime st (Ti_nextoutput st + 1)\<rparr>
        in output_loop stopflag ti_next_kick_global st)
     else Some st)"

text \<open>The loop that marks the active bins; its state is \<open>n\<close>, \<^verbatim>\<open>TimeBinActive\<close> and
  \<^verbatim>\<open>NumForceUpdate\<close>.\<close>

function mark_loop ::
  "int \<Rightarrow> int \<Rightarrow> (int \<Rightarrow> int) \<Rightarrow> int \<Rightarrow> (int \<Rightarrow> int) \<Rightarrow> int \<Rightarrow> (int \<Rightarrow> int) \<times> int" where
  "mark_loop tbins ti_next_kick_global cnt n active NumForceUpdate =
    (if n < tbins
     then
       (let dt_bin = shl1 n
        in if c_rem ti_next_kick_global dt_bin = 0
           then mark_loop tbins ti_next_kick_global cnt (n + 1) (active(n := 1))
                  (NumForceUpdate + cnt n)
           else mark_loop tbins ti_next_kick_global cnt (n + 1) (active(n := 0))
                  NumForceUpdate)
     else (active, NumForceUpdate))"
  by pat_completeness auto
termination
  by (relation "measure (\<lambda>(tbins, tg, cnt, n, active, num). nat (tbins - n))") auto

declare mark_loop.simps [simp del]

definition mark_bins :: "int \<Rightarrow> int \<Rightarrow> (int \<Rightarrow> int) \<Rightarrow> (int \<Rightarrow> int) \<Rightarrow> (int \<Rightarrow> int) \<times> int" where
  \<comment> \<open>the for-statement of lines 221 to 232 with its initialisation\<close>
  "mark_bins tbins ti_next_kick_global cnt active =
    mark_loop tbins ti_next_kick_global cnt 1 (active(0 := 1)) (cnt 0)"

text \<open>\<^verbatim>\<open>MPI_Allreduce\<close> with \<^verbatim>\<open>MPI_MIN\<close> is the minimum over the ranks, \<^verbatim>\<open>sumup_large_ints\<close>
  their sum. \<open>others\<close> holds the bins of every other rank; all ranks run the same code on
  the same \<^verbatim>\<open>All\<close>.\<close>

definition allreduce_min :: "int \<Rightarrow> int list \<Rightarrow> int" where
  "allreduce_min mine theirs = fold min theirs mine"

definition sumup_large_ints :: "int \<Rightarrow> int list \<Rightarrow> int" where
  \<comment> \<open>Modelled from the spec: \<^verbatim>\<open>sumup_large_ints\<close> is not among the sources; the spec has the
      count "reduced globally", a collective sum over the ranks.\<close>
  "sumup_large_ints mine theirs = mine + sum_list theirs"

text \<open>The first part of the function, up to line 241: the kick time, the pending
  outputs, the marking of the bins and the global count.\<close>

definition sync_point_and_mark ::
  "int \<Rightarrow> rank_bins list \<Rightarrow> sync_state \<Rightarrow> sync_state option" where
  "sync_point_and_mark stopflag others st =
    (let timeold = All_Time st;
         ti_next_kick = ti_next_kick_of st (TimeBinCount st);
         ti_next_kick_global =
           allreduce_min ti_next_kick (map (\<lambda>rk. ti_next_kick_of st (r_TimeBinCount rk)) others)
     in case output_loop stopflag ti_next_kick_global st of
          None \<Rightarrow> None
        | Some st \<Rightarrow>
            (let st = st\<lparr>Ti_Current := ti_next_kick_global\<rparr>;
                 nexttime = All_TimeBegin st * exp (real_of_int (Ti_Current st) * Timebase_interval st);
                 st = st\<lparr>All_Time := nexttime\<rparr>;
                 st = st\<lparr>TimeStep := All_Time st - timeold\<rparr>;
                 (active, NumForceUpdate) =
                    mark_bins (TIMEBINS st) ti_next_kick_global (TimeBinCount st) (TimeBinActive st);
                 st = st\<lparr>TimeBinActive := active\<rparr>;
                 st = st\<lparr>GlobNumForceUpdate :=
                          sumup_large_ints NumForceUpdate
                            (map (\<lambda>rk. snd (mark_bins (TIMEBINS st) ti_next_kick_global
                                             (r_TimeBinCount rk) (TimeBinActive st))) others)\<rparr>;
                 st = st\<lparr>Flag_FullStep := (if GlobNumForceUpdate st \<ge> TotNumPart st then 1 else 0)\<rparr>
             in Some (st\<lparr>NumForcesSinceLastDomainDecomp :=
                           NumForcesSinceLastDomainDecomp st + GlobNumForceUpdate st\<rparr>)))"

text \<open>The second part: the list of active particles, their drift, and the check of the
  two global counts. The walks along the bin lists and along the list of active particles
  have no bound in the source (a list that runs into itself never ends), so they are
  partial functions.\<close>

partial_function (option) bin_list_loop ::
  "(int \<Rightarrow> int) \<Rightarrow> int \<Rightarrow> int \<Rightarrow> int \<Rightarrow> (int \<Rightarrow> int) \<Rightarrow> (int \<times> int \<times> (int \<Rightarrow> int)) option" where
  "bin_list_loop next_in i prev first_active next_active =
    (if i \<ge> 0
     then bin_list_loop next_in (next_in i) i
            (if prev = - 1 then i else first_active)
            (if prev \<ge> 0 then next_active(prev := i) else next_active)
     else Some (prev, first_active, next_active))"

function active_list_loop ::
  "int \<Rightarrow> (int \<Rightarrow> int) \<Rightarrow> (int \<Rightarrow> int) \<Rightarrow> (int \<Rightarrow> int) \<Rightarrow> int \<Rightarrow> int \<Rightarrow> int \<Rightarrow> (int \<Rightarrow> int)
    \<Rightarrow> (int \<times> int \<times> (int \<Rightarrow> int)) option" where
  "active_list_loop tbins active first_in next_in n prev first_active next_active =
    (if n < tbins
     then
       (if active n \<noteq> 0
        then
          (case bin_list_loop next_in (first_in n) prev first_active next_active of
             None \<Rightarrow> None
           | Some (prev1, first_active1, next_active1) \<Rightarrow>
               active_list_loop tbins active first_in next_in (n + 1)
                 prev1 first_active1 next_active1)
        else active_list_loop tbins active first_in next_in (n + 1)
               prev first_active next_active)
     else Some (prev, first_active, next_active))"
  by pat_completeness auto
termination
  by (relation "measure (\<lambda>(tbins, active, first_in, next_in, n, rest). nat (tbins - n))") auto

declare active_list_loop.simps [simp del]

definition build_active_list ::
  "int \<Rightarrow> (int \<Rightarrow> int) \<Rightarrow> (int \<Rightarrow> int) \<Rightarrow> (int \<Rightarrow> int) \<Rightarrow> (int \<Rightarrow> int)
    \<Rightarrow> (int \<times> (int \<Rightarrow> int)) option" where
  \<comment> \<open>lines 244 to 264: the new \<^verbatim>\<open>FirstActiveParticle\<close> and \<^verbatim>\<open>NextActiveParticle\<close>\<close>
  "build_active_list tbins active first_in next_in next_active =
    (case active_list_loop tbins active first_in next_in 0 (- 1) (- 1) next_active of
       None \<Rightarrow> None
     | Some (prev, first_active, next_active1) \<Rightarrow>
         Some (first_active,
               if prev \<ge> 0 then next_active1(prev := - 1) else next_active1))"

partial_function (option) drift_loop ::
  "(int \<Rightarrow> int) \<Rightarrow> int \<Rightarrow> int \<Rightarrow> int \<Rightarrow> (int \<times> int) list \<Rightarrow> (int \<times> (int \<times> int) list) option" where
  "drift_loop next_active ti i NumForceUpdate calls =
    (if i \<ge> 0
     then drift_loop next_active ti (next_active i) (NumForceUpdate + 1) (calls @ [(i, ti)])
     else Some (NumForceUpdate, calls))"

definition rank_drift_count :: "int \<Rightarrow> (int \<Rightarrow> int) \<Rightarrow> int \<Rightarrow> rank_bins \<Rightarrow> int option" where
  \<comment> \<open>\<^verbatim>\<open>NumForceUpdate\<close> of another rank after its drift loop\<close>
  "rank_drift_count tbins active ti other =
    (case build_active_list tbins active (r_FirstInTimeBin other) (r_NextInTimeBin other)
            (r_NextActiveParticle other) of
       None \<Rightarrow> None
     | Some (first_active, next_active) \<Rightarrow>
         map_option fst (drift_loop next_active ti first_active 0 []))"

definition find_next_sync_point_and_drift ::
  "int \<Rightarrow> rank_bins list \<Rightarrow> sync_state \<Rightarrow> (error + sync_state) option" where
  "find_next_sync_point_and_drift stopflag others st =
    (case sync_point_and_mark stopflag others st of
       None \<Rightarrow> None
     | Some st \<Rightarrow>
         (case build_active_list (TIMEBINS st) (TimeBinActive st) (FirstInTimeBin st)
                 (NextInTimeBin st) (NextActiveParticle st) of
            None \<Rightarrow> None
          | Some (first_active, next_active) \<Rightarrow>
              (let st = st\<lparr>FirstActiveParticle := first_active, NextActiveParticle := next_active\<rparr>
               in case drift_loop (NextActiveParticle st) (Ti_Current st)
                         (FirstActiveParticle st) 0 (drift_calls st) of
                    None \<Rightarrow> None
                  | Some (NumForceUpdate, calls) \<Rightarrow>
                      (case those (map (rank_drift_count (TIMEBINS st) (TimeBinActive st)
                                          (Ti_Current st)) others) of
                         None \<Rightarrow> None
                       | Some theirs \<Rightarrow>
                           (let st = st\<lparr>drift_calls := calls\<rparr>;
                                numforces2 = sumup_large_ints NumForceUpdate theirs
                            in if GlobNumForceUpdate st \<noteq> numforces2
                               then Some (Inl (Endrun 2))
                               else Some (Inr st))))))"

section \<open>Notions and concrete inputs used in the properties\<close>

definition conserved :: "abundance \<Rightarrow> bool" where
  \<comment> \<open>the two conservation sums of an abundance\<close>
  "conserved y \<longleftrightarrow> nH0 y + nHp y = 1 \<and> nHe0 y + nHep y + nHepp y = YHELIUM"

definition grid_T :: "rate_tables \<Rightarrow> int \<Rightarrow> real" where
  \<comment> \<open>the temperature of grid point \<open>i\<close>\<close>
  "grid_T tb i = 10 powr (Tmin tb + deltaT tb * real_of_int i)"

definition initial_tables :: rate_tables where
  \<comment> \<open>the statics before \<^verbatim>\<open>MakeCoolingTable\<close> runs\<close>
  "initial_tables = \<lparr>Tmin = 0, deltaT = 0,
     BetaH0 = (\<lambda>i. 0), BetaHep = (\<lambda>i. 0), Betaff = (\<lambda>i. 0),
     AlphaHp = (\<lambda>i. 0), AlphaHep = (\<lambda>i. 0), Alphad = (\<lambda>i. 0), AlphaHepp = (\<lambda>i. 0),
     GammaeH0 = (\<lambda>i. 0), GammaeHe0 = (\<lambda>i. 0), GammaeHep = (\<lambda>i. 0)\<rparr>"

definition flat_tables :: rate_tables where
  \<comment> \<open>a grid from 1 to 9 with constant recombination and no collisional ionization\<close>
  "flat_tables = \<lparr>Tmin = 1, deltaT = 1 / 250,
     BetaH0 = (\<lambda>i. 0), BetaHep = (\<lambda>i. 0), Betaff = (\<lambda>i. 0),
     AlphaHp = (\<lambda>i. 1), AlphaHep = (\<lambda>i. 1), Alphad = (\<lambda>i. 0), AlphaHepp = (\<lambda>i. 1),
     GammaeH0 = (\<lambda>i. 0), GammaeHe0 = (\<lambda>i. 0), GammaeHep = (\<lambda>i. 0)\<rparr>"

definition empty_treecool :: ionize_table where
  "empty_treecool = \<lparr>inlogz = (\<lambda>i. 0), gH0 = (\<lambda>i. 0), gHe = (\<lambda>i. 0), gHep = (\<lambda>i. 0),
     eH0 = (\<lambda>i. 0), eHe = (\<lambda>i. 0), eHep = (\<lambda>i. 0), nheattab = 0\<rparr>"

definition three_row_treecool :: ionize_table where
  \<comment> \<open>three rows at \<open>log(1+z) = 0, 2, 4\<close>\<close>
  "three_row_treecool = \<lparr>inlogz = (\<lambda>i. 2 * real_of_int i), gH0 = (\<lambda>i. if i < 3 then 1 else 0),
     gHe = (\<lambda>i. 1), gHep = (\<lambda>i. 1), eH0 = (\<lambda>i. 1), eHe = (\<lambda>i. 1), eHep = (\<lambda>i. 1),
     nheattab = 3\<rparr>"

definition initial_cool_state :: cool_state where
  "initial_cool_state = \<lparr>GAMMA_MINUS1 = 2 / 3, CoolingNoMetal = 0, CoolingNoPrimordial = 0,
     tabs = initial_tables, units_density = 0, units_uu = 0, units_time = 0,
     treecool = empty_treecool, GlobalUVBG = zero_UVBG,
     metal_rate = (\<lambda>redshift lognH logT. 0), UVF_disabled = 0\<rparr>"

definition heated_state :: cool_state where
  \<comment> \<open>cooling switched on, with a metal table that heats\<close>
  "heated_state = \<lparr>GAMMA_MINUS1 = 2 / 3, CoolingNoMetal = 0, CoolingNoPrimordial = 0,
     tabs = flat_tables, units_density = 1, units_uu = 1, units_time = 1,
     treecool = empty_treecool, GlobalUVBG = zero_UVBG,
     metal_rate = (\<lambda>redshift lognH logT. - 1), UVF_disabled = 1\<rparr>"

definition cooled_state :: cool_state where
  \<comment> \<open>the same with a metal table that cools\<close>
  "cooled_state = heated_state\<lparr>metal_rate := (\<lambda>redshift lognH logT. 1)\<rparr>"

definition unit_temp_u :: real where
  \<comment> \<open>the internal energy of neutral gas at 1 K\<close>
  "unit_temp_u = BOLTZMANN / (2 / 3 * PROTONMASS * (50 / 41))"

definition no_files :: cool_files where
  "no_files = \<lparr>treecool_rows = (\<lambda>f. None), metal_bins = (\<lambda>f. []),
     metal_interp = (\<lambda>f redshift lognH logT. 0), uvf_table0 = (\<lambda>f. 0)\<rparr>"

definition threshold_node :: NODE where
  \<comment> \<open>a node of side 1 whose centre of mass is at distance 2 from the origin\<close>
  "threshold_node = \<lparr>node_len = 1, node_center = (\<lambda>k. if k = 0 then 2 else 0),
     node_s = (\<lambda>k. if k = 0 then 2 else 0), node_mass = 1, node_bitflags = 1,
     node_nextnode = 11, node_sibling = 12, node_maxsoft = 0\<rparr>"

definition threshold_env :: tree_env where
  \<comment> \<open>Barnes-Hut with opening angle 1/2, no periodic wrapping, no softening\<close>
  "threshold_env = \<lparr>MaxPart = 10, MaxNodes = 10,
     P_data = (\<lambda>i. \<lparr>P_Pos = (\<lambda>k. 0), P_Mass = 0, P_Type = 1, P_Hsml = 0\<rparr>),
     Nodes = (\<lambda>i. threshold_node), Nextnode = (\<lambda>i. - 1),
     ErrTolTheta = 1 / 2, ErrTolForceAcc = 0, ForceSoftening = (\<lambda>t. 0), Rcut0 = 10,
     NEAREST = (\<lambda>x. x), BITFLAG_TOPLEVEL = 1, BITFLAG_MULTIPLEPARTICLES = 0,
     extract_max_softening_type = (\<lambda>f. 0), maskout_different_softening_flag = (\<lambda>f. 0),
     treewalk_export_particle = (\<lambda>no. 0), ADAPTIVE_GRAVSOFT_FORGAS = False\<rparr>"

definition origin_query :: walk_query where
  "origin_query = \<lparr>q_Pos = (\<lambda>k. 0), q_Type = 1, q_Soft = 0, q_OldAcc = 0, lv_mode = 0\<rparr>"

definition four_bin_state :: sync_state where
  \<comment> \<open>four bins at time 4: particles 0, 1, 2 in bin 1, particles 3 to 7 in bin 2; no
      output pending\<close>
  "four_bin_state = \<lparr>TIMEBINS = 4, TIMEBASE = 16, Ti_Current = 4, Ti_nextoutput = 32,
     All_Time = 1, All_TimeBegin = 1, All_TimeMax = 2, Timebase_interval = 1 / 16, TimeStep = 0,
     OutputListTimes = [], SnapshotFileCount = 0, snapshots = [],
     TimeBinCount = (\<lambda>n. if n = 1 then 3 else if n = 2 then 5 else 0),
     TimeBinActive = (\<lambda>n. 0), GlobNumForceUpdate = 0, Flag_FullStep = 0, TotNumPart = 15,
     NumForcesSinceLastDomainDecomp = 0,
     FirstInTimeBin = (\<lambda>n. if n = 1 then 0 else if n = 2 then 3 else - 1),
     NextInTimeBin = (\<lambda>i. if i = 2 \<or> i = 7 then - 1 else i + 1),
     FirstActiveParticle = - 1, NextActiveParticle = (\<lambda>i. - 1), drift_calls = []\<rparr>"

definition other_rank :: rank_bins where
  \<comment> \<open>another rank with seven particles, all in bin 2\<close>
  "other_rank = \<lparr>r_TimeBinCount = (\<lambda>n. if n = 2 then 7 else 0),
     r_FirstInTimeBin = (\<lambda>n. if n = 2 then 0 else - 1),
     r_NextInTimeBin = (\<lambda>i. if i = 6 then - 1 else i + 1),
     r_NextActiveParticle = (\<lambda>i. - 1)\<rparr>"

section \<open>Properties of \<^verbatim>\<open>find_abundances_and_rates\<close>\<close>

subsection \<open>The two closed-form branches\<close>

lemma find_abundances_neutral:
  "logT \<le> Tmin tb \<Longrightarrow> find_abundances_and_rates tb logT nHcgs uvbg y r =
     Inr (\<lparr>ne = 0, nH0 = 1, nHp = 0, nHe0 = YHELIUM, nHep = 0, nHepp = 0\<rparr>, r)"
  by (simp add: find_abundances_and_rates_def)

lemma find_abundances_ionized:
  "\<not> logT \<le> Tmin tb \<Longrightarrow> logT \<ge> Tmax \<Longrightarrow>
   find_abundances_and_rates tb logT nHcgs uvbg y r =
     Inr (\<lparr>ne = 1 + 2 * YHELIUM, nH0 = 0, nHp = 1, nHe0 = 0, nHep = 0, nHepp = YHELIUM\<rparr>, r)"
  by (simp add: find_abundances_and_rates_def Let_def)

lemma fold_entry_Tmin: "Tmin (fold (MakeCoolingTable_entry new) xs tb) = Tmin tb"
  by (induction xs arbitrary: tb) (simp_all add: MakeCoolingTable_entry_def Let_def)

lemma fold_entry_deltaT: "deltaT (fold (MakeCoolingTable_entry new) xs tb) = deltaT tb"
  by (induction xs arbitrary: tb) (simp_all add: MakeCoolingTable_entry_def Let_def)

lemma Tmin_after_MakeCoolingTable:
  "Tmin (MakeCoolingTable new M tb) = (if M > 0 then log 10 (0.1 * M) else 1)"
  by (simp add: MakeCoolingTable_def Let_def fold_entry_Tmin)

lemma MakeCoolingTable_deltaT:
  "deltaT (MakeCoolingTable new M tb)
     = (Tmax - Tmin (MakeCoolingTable new M tb)) / real_of_int NCOOLTAB"
  by (simp add: MakeCoolingTable_def Let_def fold_entry_Tmin fold_entry_deltaT)

text \<open>The grid that \<^verbatim>\<open>MakeCoolingTable\<close> builds has its lower end below \<open>Tmax\<close> for
  every minimum gas temperature below \<open>10^10\<close> K.\<close>

lemma MakeCoolingTable_grid_increasing:
  assumes "M < 10 ^ 10"
  shows "Tmin (MakeCoolingTable new M tb) < Tmax"
proof (cases "M > 0")
  case False
  then show ?thesis by (simp add: Tmin_after_MakeCoolingTable Tmax_def)
next
  case True
  have "log 10 (0.1 * M) < 9 \<longleftrightarrow> 0.1 * M < 10 powr 9"
    using True by (intro log_less_iff) simp_all
  moreover have "0.1 * M < 10 powr 9" using assms by simp
  ultimately show ?thesis using True by (simp add: Tmin_after_MakeCoolingTable Tmax_def)
qed

text \<open>
  C1. At or below the lower end of the grid (\<open>logT \<le> Tmin\<close>) the function returns the
  neutral state \<open>nH0 = 1\<close>, \<open>nHe0 = YHELIUM\<close>, \<open>nHp = nHep = nHepp = 0\<close>, \<open>ne = 0\<close>. At or
  above the upper end (\<open>logT \<ge> Tmax\<close>) of a grid whose lower end lies below its upper
  end it returns the fully ionized state \<open>nHp = 1\<close>, \<open>nHepp = YHELIUM\<close>,
  \<open>nH0 = nHe0 = nHep = 0\<close>, \<open>ne = nHp + 2 * nHepp\<close>. Both results are closed forms: they
  do not depend on the density, the UV background or the incoming abundance, the loop is
  not entered and the rates are returned as they came.
\<close>

theorem find_abundances_and_rates_boundary:
  "(logT \<le> Tmin tb \<longrightarrow>
      find_abundances_and_rates tb logT nHcgs uvbg y r =
        Inr (\<lparr>ne = 0, nH0 = 1, nHp = 0, nHe0 = YHELIUM, nHep = 0, nHepp = 0\<rparr>, r))
   \<and> (Tmin tb < Tmax \<longrightarrow> logT \<ge> Tmax \<longrightarrow>
      (\<exists>y'. find_abundances_and_rates tb logT nHcgs uvbg y r = Inr (y', r)
        \<and> y' = \<lparr>ne = 1 + 2 * YHELIUM, nH0 = 0, nHp = 1, nHe0 = 0, nHep = 0, nHepp = YHELIUM\<rparr>
        \<and> ne y' = nHp y' + 2 * nHepp y'))"
  using find_abundances_neutral find_abundances_ionized by auto

theorem find_abundances_and_rates_boundary_witness:
  "(0::real) \<le> Tmin (MakeCoolingTable False 0 initial_tables)
   \<and> find_abundances_and_rates (MakeCoolingTable False 0 initial_tables) 0 1 zero_UVBG
        local_abundance local_rates
      = Inr (\<lparr>ne = 0, nH0 = 1, nHp = 0, nHe0 = YHELIUM, nHep = 0, nHepp = 0\<rparr>, local_rates)
   \<and> Tmin (MakeCoolingTable False 0 initial_tables) < Tmax \<and> (10::real) \<ge> Tmax
   \<and> find_abundances_and_rates (MakeCoolingTable False 0 initial_tables) 10 1 zero_UVBG
        local_abundance local_rates
      = Inr (\<lparr>ne = 1 + 2 * YHELIUM, nH0 = 0, nHp = 1, nHe0 = 0, nHep = 0, nHepp = YHELIUM\<rparr>,
             local_rates)"
proof -
  let ?tb = "MakeCoolingTable False 0 initial_tables"
  have t: "Tmin ?tb = 1" by (simp add: Tmin_after_MakeCoolingTable)
  have lo: "(0::real) \<le> Tmin ?tb" and gr: "Tmin ?tb < Tmax" and hi: "(10::real) \<ge> Tmax"
    by (simp_all add: t Tmax_def)
  from find_abundances_and_rates_boundary[of 0 ?tb 1 zero_UVBG local_abundance local_rates] lo
  have a: "find_abundances_and_rates ?tb 0 1 zero_UVBG local_abundance local_rates
      = Inr (\<lparr>ne = 0, nH0 = 1, nHp = 0, nHe0 = YHELIUM, nHep = 0, nHepp = 0\<rparr>, local_rates)"
    by blast
  from find_abundances_and_rates_boundary[of 10 ?tb 1 zero_UVBG local_abundance local_rates] gr hi
  have b: "find_abundances_and_rates ?tb 10 1 zero_UVBG local_abundance local_rates
      = Inr (\<lparr>ne = 1 + 2 * YHELIUM, nH0 = 0, nHp = 1, nHe0 = 0, nHep = 0, nHepp = YHELIUM\<rparr>,
             local_rates)"
    by blast
  from lo gr hi a b show ?thesis by blast
qed

subsection \<open>No UV background: one pass\<close>

lemma fa_loop_no_uv:
  "J_UV uvbg = 0 \<Longrightarrow> fa_loop tb flow fhi j nHcgs uvbg niter necgs y r =
     (case fa_pass tb flow fhi j uvbg necgs y r of (y1, r1, neold) \<Rightarrow> (niter + 1, y1, r1))"
  by (subst fa_loop.simps) (simp split: prod.splits)

text \<open>
  C7. Without UV background (\<open>J_UV = 0\<close>) and with the temperature strictly inside the
  grid, the loop is left after exactly one pass: \<^verbatim>\<open>niter\<close> is 1 at the exit, and the
  function returns the abundances and rates of that single pass (with the three cooling
  coefficients interpolated after the loop); no convergence test and no fatal error is
  reached.
\<close>

theorem fa_single_pass_without_uv:
  assumes "J_UV uvbg = 0" and "Tmin tb < logT" and "logT < Tmax"
  shows "fst (fa_interior tb logT nHcgs uvbg y r) = 1
    \<and> (let t = (logT - Tmin tb) / deltaT tb;
            j = c_int t;
            fhi = t - real_of_int j;
            flow = 1 - fhi;
            y0 = (if ne y = 0 then y\<lparr>ne := 1\<rparr> else y);
            (y1, r1, neold) = fa_pass tb flow fhi j uvbg (ne y0 * nHcgs) y0 r
        in find_abundances_and_rates tb logT nHcgs uvbg y r =
             Inr (y1, r1\<lparr>bH0 := interp_tab flow fhi j (BetaH0 tb),
                         bHep := interp_tab flow fhi j (BetaHep tb),
                         bff := interp_tab flow fhi j (Betaff tb)\<rparr>))"
proof -
  have one: "fst (fa_interior tb logT nHcgs uvbg y r) = 1"
    using assms(1) by (simp add: fa_interior_def Let_def fa_loop_no_uv split: prod.splits)
  have res: "let t = (logT - Tmin tb) / deltaT tb;
            j = c_int t;
            fhi = t - real_of_int j;
            flow = 1 - fhi;
            y0 = (if ne y = 0 then y\<lparr>ne := 1\<rparr> else y);
            (y1, r1, neold) = fa_pass tb flow fhi j uvbg (ne y0 * nHcgs) y0 r
        in find_abundances_and_rates tb logT nHcgs uvbg y r =
             Inr (y1, r1\<lparr>bH0 := interp_tab flow fhi j (BetaH0 tb),
                         bHep := interp_tab flow fhi j (BetaHep tb),
                         bff := interp_tab flow fhi j (Betaff tb)\<rparr>)"
    using assms
    by (simp add: find_abundances_and_rates_def fa_interior_def Let_def fa_loop_no_uv
        MAXITER_def split: prod.splits)
  from one res show ?thesis by blast
qed

theorem fa_single_pass_without_uv_witness:
  "J_UV zero_UVBG = 0 \<and> Tmin flat_tables < 5 \<and> (5::real) < Tmax
   \<and> fst (fa_interior flat_tables 5 1 zero_UVBG local_abundance local_rates) = 1
   \<and> find_abundances_and_rates flat_tables 5 1 zero_UVBG local_abundance local_rates
       = Inr (\<lparr>ne = 0, nH0 = 1, nHp = 0, nHe0 = YHELIUM, nHep = 0, nHepp = 0\<rparr>,
              \<lparr>aHp = 1, aHep = 1, aHepp = 1, ad = 0, geH0 = 0, geHe0 = 0, geHep = 0,
                bH0 = 0, bHep = 0, bff = 0\<rparr>)"
proof -
  have h: "J_UV zero_UVBG = 0" "Tmin flat_tables < 5" "(5::real) < Tmax"
    by (simp_all add: zero_UVBG_def flat_tables_def Tmax_def)
  from fa_single_pass_without_uv[OF h, of 1 local_abundance local_rates] h
  show ?thesis
    by (simp add: Let_def fa_pass_def flat_tables_def zero_UVBG_def local_abundance_def
        local_rates_def interp_tab_def SMALLNUM_def split: prod.splits)
qed

subsection \<open>A zero guess is a guess of one\<close>

text \<open>
  C10. With an incoming electron fraction of exactly 0 the function returns what it
  returns with an incoming electron fraction of 1, everything else being equal: the zero
  is replaced by 1 before the loop starts. This holds at every temperature, in particular
  strictly inside the grid, and covers the fatal error as well as the regular return.
\<close>

theorem zero_guess_is_unit_guess:
  "find_abundances_and_rates tb logT nHcgs uvbg (y\<lparr>ne := 0\<rparr>) r
     = find_abundances_and_rates tb logT nHcgs uvbg (y\<lparr>ne := 1\<rparr>) r"
  by (simp add: find_abundances_and_rates_def fa_interior_def Let_def)

section \<open>Properties of \<^verbatim>\<open>MakeCoolingTable\<close>\<close>

text \<open>
  C8. The lower end of the grid is \<open>Tmin = log10(0.1 * MinGasTemp)\<close> when
  \<open>MinGasTemp > 0\<close> and \<open>Tmin = 1\<close> otherwise; \<open>MinGasTemp = 0\<close> and \<open>MinGasTemp = 100\<close> both
  give \<open>Tmin = 1\<close>.
\<close>

theorem MakeCoolingTable_Tmin:
  "(M > 0 \<longrightarrow> Tmin (MakeCoolingTable new M tb) = log 10 (0.1 * M))
   \<and> (\<not> M > 0 \<longrightarrow> Tmin (MakeCoolingTable new M tb) = 1)
   \<and> Tmin (MakeCoolingTable new 0 tb) = 1
   \<and> Tmin (MakeCoolingTable new 100 tb) = 1"
  by (simp add: Tmin_after_MakeCoolingTable)

theorem MakeCoolingTable_Tmin_witness:
  "(1000::real) > 0 \<and> Tmin (MakeCoolingTable False 1000 initial_tables) = 2
   \<and> \<not> (- 5::real) > 0 \<and> Tmin (MakeCoolingTable True (- 5) initial_tables) = 1"
proof -
  have "log 10 (0.1 * 1000) = (2::real)"
    using log_powr_cancel[of 10 2] by simp
  with MakeCoolingTable_Tmin[of 1000 False initial_tables]
    MakeCoolingTable_Tmin[of "- 5" True initial_tables]
  show ?thesis by simp
qed

section \<open>The conservation sums of \<^verbatim>\<open>find_abundances_and_rates\<close>\<close>

text \<open>The entries that \<^verbatim>\<open>MakeCoolingTable\<close> writes are positive (recombination) or
  not negative (dielectronic recombination, collisional ionization) at every grid
  temperature, with the old and with the new rates.\<close>

lemma AlphaHp_entry_pos: "0 < T \<Longrightarrow> 0 < AlphaHp_entry new T"
  by (simp add: AlphaHp_entry_def add_pos_nonneg)

lemma AlphaHepp_entry_pos: "0 < T \<Longrightarrow> 0 < AlphaHepp_entry new T"
  using AlphaHp_entry_pos[of T False]
  by (simp add: AlphaHepp_entry_def add_pos_nonneg)

lemma AlphaHep_entry_pos: "0 < T \<Longrightarrow> 0 < AlphaHep_entry T"
  by (simp add: AlphaHep_entry_def)

lemma Alphad_entry_nonneg: "0 < T \<Longrightarrow> 0 \<le> Alphad_entry T"
  by (simp add: Alphad_entry_def add_nonneg_nonneg)

lemma Tfact_of_pos: "0 < T \<Longrightarrow> 0 < Tfact_of T"
  by (simp add: Tfact_of_def add_pos_nonneg)

lemma voronov_nonneg: "0 < T \<Longrightarrow> 0 < dE \<Longrightarrow> 0 \<le> Pv \<Longrightarrow> 0 \<le> A \<Longrightarrow> 0 < X \<Longrightarrow> 0 \<le> voronov dE Pv A X K T"
  by (simp add: voronov_def Let_def eV_to_K_def add_nonneg_nonneg add_pos_pos)

lemma GammaeHep_entry_nonneg: "0 < T \<Longrightarrow> 0 \<le> GammaeHep_entry new T"
  using Tfact_of_pos[of T]
  by (simp add: GammaeHep_entry_def voronov_nonneg)

lemma grid_T_pos: "0 < grid_T tb i" by (simp add: grid_T_def)

lemma entry_step:
  "AlphaHep (MakeCoolingTable_entry new x tb) i = (if i = x then AlphaHep_entry (grid_T tb x) else AlphaHep tb i)"
  "AlphaHepp (MakeCoolingTable_entry new x tb) i = (if i = x then AlphaHepp_entry new (grid_T tb x) else AlphaHepp tb i)"
  "Alphad (MakeCoolingTable_entry new x tb) i = (if i = x then Alphad_entry (grid_T tb x) else Alphad tb i)"
  "GammaeHep (MakeCoolingTable_entry new x tb) i = (if i = x then GammaeHep_entry new (grid_T tb x) else GammaeHep tb i)"
  by (simp_all add: MakeCoolingTable_entry_def Let_def grid_T_def)

lemma fold_entry_tables:
  "i \<in> set xs \<Longrightarrow>
     AlphaHep (fold (MakeCoolingTable_entry new) xs tb) i = AlphaHep_entry (grid_T tb i)
   \<and> AlphaHepp (fold (MakeCoolingTable_entry new) xs tb) i = AlphaHepp_entry new (grid_T tb i)
   \<and> Alphad (fold (MakeCoolingTable_entry new) xs tb) i = Alphad_entry (grid_T tb i)
   \<and> GammaeHep (fold (MakeCoolingTable_entry new) xs tb) i = GammaeHep_entry new (grid_T tb i)"
proof (induction xs arbitrary: tb rule: rev_induct)
  case Nil
  then show ?case by simp
next
  case (snoc x xs)
  let ?tb = "fold (MakeCoolingTable_entry new) xs tb"
  have g: "grid_T ?tb i = grid_T tb i"
    by (simp add: grid_T_def fold_entry_Tmin fold_entry_deltaT)
  show ?case
  proof (cases "i = x")
    case True
    then show ?thesis using g
      by (simp add: entry_step)
  next
    case False
    with snoc.prems have "i \<in> set xs" by simp
    from snoc.IH[OF this, of tb] False show ?thesis
      by (simp add: entry_step)
  qed
qed

lemma MakeCoolingTable_entries:
  assumes "0 \<le> i" "i \<le> NCOOLTAB"
  shows "0 < AlphaHep (MakeCoolingTable new M tb) i"
    "0 < AlphaHepp (MakeCoolingTable new M tb) i"
    "0 \<le> Alphad (MakeCoolingTable new M tb) i"
    "0 \<le> GammaeHep (MakeCoolingTable new M tb) i"
proof -
  have "i \<in> set [0..NCOOLTAB]" using assms by simp
  note e = fold_entry_tables[OF this]
  show "0 < AlphaHep (MakeCoolingTable new M tb) i"
    "0 < AlphaHepp (MakeCoolingTable new M tb) i"
    "0 \<le> Alphad (MakeCoolingTable new M tb) i"
    "0 \<le> GammaeHep (MakeCoolingTable new M tb) i"
    unfolding MakeCoolingTable_def Let_def
    by (simp_all add: e AlphaHep_entry_pos AlphaHepp_entry_pos Alphad_entry_nonneg
        GammaeHep_entry_nonneg grid_T_pos)
qed

text \<open>One pass of the loop ends with both sums in place, and the loop only changes the
  electron fraction after a pass.\<close>

lemma helium_sum:
  fixes a g b c Y :: real
  assumes "0 \<le> a" "0 < g" "0 \<le> b" "0 < c"
  shows "Y / (1 + a / g + b / c) * a / g + Y / (1 + a / g + b / c)
           + Y / (1 + a / g + b / c) * b / c = Y"
proof -
  define D where "D = 1 + a / g + b / c"
  define q where "q = Y / D"
  have D: "0 < D"
    using assms by (simp add: D_def add_pos_nonneg)
  have "q * a / g + q + q * b / c = q * (1 + a / g + b / c)"
    by (simp add: distrib_left)
  also have "\<dots> = Y" using D by (simp add: q_def D_def[symmetric])
  finally show ?thesis by (simp add: q_def D_def)
qed

lemma SMALLNUM_pos: "0 < SMALLNUM" by (simp add: SMALLNUM_def)

lemma fa_pass_conserved:
  assumes "0 < interp_tab flow fhi j (AlphaHepp tb)"
    "0 \<le> interp_tab flow fhi j (AlphaHep tb) + interp_tab flow fhi j (Alphad tb)"
    "0 \<le> interp_tab flow fhi j (GammaeHep tb)"
    "0 \<le> gJHep uvbg"
  shows "conserved (fst (fa_pass tb flow fhi j uvbg necgs y r))"
proof (cases "necgs \<le> 1 / 10 ^ 25 \<or> J_UV uvbg = 0")
  case True
  show ?thesis
  proof (cases "interp_tab flow fhi j (GammaeHe0 tb) \<le> SMALLNUM")
    case T: True
    with True show ?thesis by (simp add: fa_pass_def Let_def conserved_def)
  next
    case F: False
    then have g: "0 < interp_tab flow fhi j (GammaeHe0 tb)" using SMALLNUM_pos by linarith
    from helium_sum[OF assms(2) g _ assms(1), of "interp_tab flow fhi j (GammaeHep tb)" YHELIUM] assms(3)
    show ?thesis using True F by (simp add: fa_pass_def Let_def conserved_def)
  qed
next
  case False
  then have n: "0 < necgs" by simp
  let ?g = "gJHe0 uvbg / necgs + interp_tab flow fhi j (GammaeHe0 tb)"
  show ?thesis
  proof (cases "?g \<le> SMALLNUM")
    case T: True
    with False show ?thesis by (simp add: fa_pass_def Let_def conserved_def)
  next
    case F: False
    then have g: "0 < interp_tab flow fhi j (GammaeHe0 tb) + gJHe0 uvbg / necgs"
      using SMALLNUM_pos by linarith
    have b: "0 \<le> interp_tab flow fhi j (GammaeHep tb) + gJHep uvbg / necgs"
      using assms(3,4) n by simp
    from helium_sum[OF assms(2) g b assms(1), of YHELIUM]
    show ?thesis using False F by (simp add: fa_pass_def Let_def conserved_def)
  qed
qed

lemma fa_loop_conserved:
  assumes "0 < interp_tab flow fhi j (AlphaHepp tb)"
    "0 \<le> interp_tab flow fhi j (AlphaHep tb) + interp_tab flow fhi j (Alphad tb)"
    "0 \<le> interp_tab flow fhi j (GammaeHep tb)"
    "0 \<le> gJHep uvbg"
  shows "conserved (fst (snd (fa_loop tb flow fhi j nHcgs uvbg niter necgs y r)))"
  using assms
proof (induction tb flow fhi j nHcgs uvbg niter necgs y r rule: fa_loop.induct)
  case (1 tb flow fhi j nHcgs uvbg niter necgs y r)
  obtain y1 r1 neold where p: "fa_pass tb flow fhi j uvbg necgs y r = (y1, r1, neold)"
    by (cases "fa_pass tb flow fhi j uvbg necgs y r") auto
  from fa_pass_conserved[OF "1.prems", of necgs y r] p have c1: "conserved y1" by simp
  then have c2: "conserved (y1\<lparr>ne := v\<rparr>)" for v by (simp add: conserved_def)
  show ?case
  proof (cases "J_UV uvbg = 0")
    case True
    then show ?thesis by (subst fa_loop.simps) (simp add: p c1)
  next
    case False
    let ?y2 = "y1\<lparr>ne := (1 / 2) * (ne y1 + neold)\<rparr>"
    show ?thesis
    proof (cases "\<bar>ne ?y2 - neold\<bar> < 1 / 10 ^ 4 \<or> \<not> niter + 1 < MAXITER")
      case True
      then show ?thesis using False
        by (subst fa_loop.simps) (auto simp add: p c2 Let_def)
    next
      case F2: False
      have "fa_loop tb flow fhi j nHcgs uvbg niter necgs y r
          = fa_loop tb flow fhi j nHcgs uvbg (niter + 1) (ne ?y2 * nHcgs) ?y2 r1"
        using False F2 by (subst fa_loop.simps) (simp add: p Let_def)
      moreover have "conserved (fst (snd (fa_loop tb flow fhi j nHcgs uvbg (niter + 1) (ne ?y2 * nHcgs) ?y2 r1)))"
        using "1.IH"[OF p[symmetric] refl False refl refl refl] F2 "1.prems" by simp
      ultimately show ?thesis by simp
    qed
  qed
qed

text \<open>Strictly inside the grid the table position is a valid index with its right
  neighbour, and the two weights are not negative.\<close>

lemma grid_position:
  assumes "Tmin tb < logT" "logT < Tmax" "deltaT tb = (Tmax - Tmin tb) / real_of_int NCOOLTAB"
  defines "t \<equiv> (logT - Tmin tb) / deltaT tb"
  shows "0 \<le> c_int t" "c_int t + 1 \<le> NCOOLTAB" "0 \<le> t - real_of_int (c_int t)"
    "0 < 1 - (t - real_of_int (c_int t))"
proof -
  have d: "0 < deltaT tb" using assms(1,2,3) by (simp add: NCOOLTAB_def)
  have t0: "0 < t" using assms(1) d by (simp add: t_def)
  have "logT - Tmin tb < Tmax - Tmin tb" using assms(2) by simp
  then have "t < (Tmax - Tmin tb) / deltaT tb" using d by (simp add: t_def divide_strict_right_mono)
  also have "\<dots> = 2000"
  proof -
    have "Tmax - Tmin tb = deltaT tb * 2000" using assms(3) by (simp add: NCOOLTAB_def)
    then show ?thesis using d by simp
  qed
  finally have t1: "t < 2000" .
  have c: "c_int t = \<lfloor>t\<rfloor>" using t0 by (simp add: c_int_def)
  show "0 \<le> c_int t" using t0 c by simp
  have "\<lfloor>t\<rfloor> < 2000" using t1 by (simp add: floor_less_iff)
  then show "c_int t + 1 \<le> NCOOLTAB" by (simp add: c NCOOLTAB_def)
  show "0 \<le> t - real_of_int (c_int t)" by (simp add: c)
  show "0 < 1 - (t - real_of_int (c_int t))" unfolding c by linarith
qed

lemma find_abundances_conserved:
  assumes tb: "tb = MakeCoolingTable new MinGasTemp tb0"
    and uv: "0 \<le> gJHep uvbg"
    and res: "find_abundances_and_rates tb logT nHcgs uvbg y r = Inr (y', r')"
  shows "conserved y'"
proof (cases "logT \<le> Tmin tb")
  case True
  with res show ?thesis by (auto simp: find_abundances_and_rates_def conserved_def)
next
  case False
  show ?thesis
  proof (cases "logT \<ge> Tmax")
    case True
    with res False show ?thesis
      by (auto simp: find_abundances_and_rates_def conserved_def Let_def)
  next
    case F2: False
    define t where "t = (logT - Tmin tb) / deltaT tb"
    define j where "j = c_int t"
    define fhi where "fhi = t - real_of_int j"
    define flow where "flow = 1 - fhi"
    have dT: "deltaT tb = (Tmax - Tmin tb) / real_of_int NCOOLTAB"
      unfolding tb by (rule MakeCoolingTable_deltaT)
    from grid_position[OF _ _ dT, of logT] False F2
    have j: "0 \<le> j" "j + 1 \<le> NCOOLTAB" and f: "0 \<le> fhi" "0 < flow"
      by (simp_all add: j_def t_def fhi_def flow_def)
    have e1: "0 \<le> j" "j \<le> NCOOLTAB" using j by simp_all
    have e2: "0 \<le> j + 1" "j + 1 \<le> NCOOLTAB" using j by simp_all
    note p1 = MakeCoolingTable_entries[OF e1, of new MinGasTemp tb0, folded tb]
    note p2 = MakeCoolingTable_entries[OF e2, of new MinGasTemp tb0, folded tb]
    have a: "0 < interp_tab flow fhi j (AlphaHepp tb)"
      unfolding interp_tab_def using p1(2) p2(2) f
      by (intro add_pos_nonneg mult_pos_pos mult_nonneg_nonneg) simp_all
    have b: "0 \<le> interp_tab flow fhi j (AlphaHep tb) + interp_tab flow fhi j (Alphad tb)"
      unfolding interp_tab_def using p1(1,3) p2(1,3) f
      by (intro add_nonneg_nonneg mult_nonneg_nonneg) simp_all
    have c: "0 \<le> interp_tab flow fhi j (GammaeHep tb)"
      unfolding interp_tab_def using p1(4) p2(4) f
      by (intro add_nonneg_nonneg mult_nonneg_nonneg) simp_all
    have "conserved (fst (snd (fa_interior tb logT nHcgs uvbg y r)))"
      unfolding fa_interior_def Let_def
      using fa_loop_conserved[OF a b c uv]
      by (simp add: t_def j_def fhi_def flow_def)
    with res False F2 show ?thesis
      by (auto simp: find_abundances_and_rates_def Let_def split: prod.splits if_splits)
  qed
qed

lemma find_abundances_no_uv_returns:
  assumes "J_UV uvbg = 0" "Tmin tb < logT" "logT < Tmax"
  shows "\<exists>y' r'. find_abundances_and_rates tb logT nHcgs uvbg y r = Inr (y', r')"
  using assms
  by (simp add: find_abundances_and_rates_def fa_interior_def Let_def fa_loop_no_uv
      MAXITER_def split: prod.splits)

text \<open>The UV background that \<^verbatim>\<open>IonizeParamsTable\<close> sets has no negative rate.\<close>

lemma IonizeParamsTable_rates_nonneg:
  "0 \<le> gJH0 (GlobalUVBG (IonizeParamsTable a st))"
  "0 \<le> gJHep (GlobalUVBG (IonizeParamsTable a st))"
  by (simp_all add: IonizeParamsTable_def Let_def loglog_interp_def JAMPL_def zero_UVBG_def)

text \<open>
  C2. For rate tables built by \<^verbatim>\<open>MakeCoolingTable\<close> (any minimum gas temperature, old
  or new rates) and a UV background whose H0 and He+ photoionization rates are not
  negative (then every divisor of a pass is positive), every call that returns without the
  fatal error returns abundances with \<open>nH0 + nHp = 1\<close> and
  \<open>nHe0 + nHep + nHepp = YHELIUM\<close>, whatever the temperature, the density and the
  incoming electron fraction are. In the real-number reading of \<^verbatim>\<open>double\<close> the sums are
  exact, so they hold within \<open>1e-8\<close>.
\<close>

theorem abundance_sums_conserved:
  assumes "tb = MakeCoolingTable new MinGasTemp tb0"
    and "0 \<le> gJH0 uvbg" and "0 \<le> gJHep uvbg"
    and "find_abundances_and_rates tb logT nHcgs uvbg y r = Inr (y', r')"
  shows "nH0 y' + nHp y' = 1 \<and> nHe0 y' + nHep y' + nHepp y' = YHELIUM
     \<and> \<bar>nH0 y' + nHp y' - 1\<bar> \<le> 1 / 10 ^ 8
     \<and> \<bar>nHe0 y' + nHep y' + nHepp y' - YHELIUM\<bar> \<le> 1 / 10 ^ 8"
  using find_abundances_conserved[OF assms(1,3,4)] by (simp add: conserved_def)

theorem abundance_sums_conserved_witness:
  "0 \<le> gJH0 zero_UVBG \<and> 0 \<le> gJHep zero_UVBG
   \<and> (\<exists>y' r'. find_abundances_and_rates (MakeCoolingTable False 0 initial_tables) 5 1 zero_UVBG
                 local_abundance local_rates = Inr (y', r')
        \<and> nH0 y' + nHp y' = 1 \<and> nHe0 y' + nHep y' + nHepp y' = YHELIUM)"
proof -
  let ?tb = "MakeCoolingTable False 0 initial_tables"
  have uv: "0 \<le> gJH0 zero_UVBG" "0 \<le> gJHep zero_UVBG" "J_UV zero_UVBG = 0"
    by (simp_all add: zero_UVBG_def)
  have t: "Tmin ?tb < 5" "(5::real) < Tmax" by (simp_all add: Tmin_after_MakeCoolingTable Tmax_def)
  from find_abundances_no_uv_returns[OF uv(3) t, of 1 local_abundance local_rates]
  obtain y' r' where r: "find_abundances_and_rates ?tb 5 1 zero_UVBG local_abundance local_rates
      = Inr (y', r')" by blast
  from abundance_sums_conserved[OF refl uv(1,2) r] r uv(1,2) show ?thesis by blast
qed

section \<open>Properties of \<^verbatim>\<open>InitCool\<close>, \<^verbatim>\<open>DoCooling\<close> and \<^verbatim>\<open>GetCoolingTime\<close>\<close>

lemma DoCooling_disabled:
  "CoolingNoPrimordial st \<noteq> 0 \<Longrightarrow>
   DoCooling st u_old rho dt uvbg ne_guess Z Time = Some (Inr (0, ne_guess))"
  by (simp add: DoCooling_def)

lemma InitUVF_flag:
  "InitUVF fs f st = Inr st' \<Longrightarrow> CoolingNoPrimordial st' = CoolingNoPrimordial st"
  by (auto simp: InitUVF_def Let_def split: if_splits)

lemma InitMetalCooling_flag:
  "InitMetalCooling fs f st = Inr st' \<Longrightarrow> CoolingNoPrimordial st' = CoolingNoPrimordial st"
  by (auto simp: InitMetalCooling_def Let_def split: if_splits)

lemma IonizeParams_flag: "CoolingNoPrimordial (IonizeParams t st) = CoolingNoPrimordial st"
  by (simp add: IonizeParams_def IonizeParamsTable_def Let_def)

lemma InitCool_empty_treecool:
  assumes "InitCool fs new CoolingOn TimeBegin [] MetalCoolFile UVFluctuationFile
      UnitDensity_in_cgs HubbleParam UnitTime_in_s UnitPressure_in_cgs MinGasTemp st = Inr st'"
  shows "CoolingNoPrimordial st' = 1"
  using assms
  by (auto simp: InitCool_def Let_def IonizeParams_flag split: if_splits sum.splits
      dest!: InitUVF_flag InitMetalCooling_flag)

lemma InitCool_no_files_returns:
  "\<exists>st'. InitCool fs new CoolingOn TimeBegin [] [] []
      UnitDensity_in_cgs HubbleParam UnitTime_in_s UnitPressure_in_cgs MinGasTemp st = Inr st'"
  by (simp add: InitCool_def Let_def InitUVF_def)

text \<open>
  C3, as the code has it. With an empty TreeCool file name \<^verbatim>\<open>InitCool\<close> raises no
  error for that file and sets \<^verbatim>\<open>CoolingNoPrimordial\<close>; whenever it returns, \<^verbatim>\<open>DoCooling\<close>
  then returns 0 as the new internal energy for every input, leaves the electron fraction
  guess alone and raises no fatal error. It does not return \<open>u_old\<close>. With all three file
  names empty \<^verbatim>\<open>InitCool\<close> always returns.
\<close>

theorem InitCool_empty_TreeCool_DoCooling_zero:
  "(InitCool fs new CoolingOn TimeBegin [] MetalCoolFile UVFluctuationFile
      UnitDensity_in_cgs HubbleParam UnitTime_in_s UnitPressure_in_cgs MinGasTemp st = Inr st'
     \<longrightarrow> CoolingNoPrimordial st' = 1
       \<and> DoCooling st' u_old rho dt uvbg ne_guess Z Time = Some (Inr (0, ne_guess)))
   \<and> (\<exists>st''. InitCool fs new CoolingOn TimeBegin [] [] []
      UnitDensity_in_cgs HubbleParam UnitTime_in_s UnitPressure_in_cgs MinGasTemp st = Inr st'')"
  using InitCool_empty_treecool[of fs new CoolingOn TimeBegin MetalCoolFile UVFluctuationFile
      UnitDensity_in_cgs HubbleParam UnitTime_in_s UnitPressure_in_cgs MinGasTemp st st']
    InitCool_no_files_returns[of fs new CoolingOn TimeBegin
      UnitDensity_in_cgs HubbleParam UnitTime_in_s UnitPressure_in_cgs MinGasTemp st]
  by (auto simp: DoCooling_disabled)

theorem InitCool_empty_TreeCool_DoCooling_zero_witness:
  "\<exists>st'. InitCool no_files False 1 1 [] [] [] 1 1 1 1 0 initial_cool_state = Inr st'
     \<and> CoolingNoPrimordial st' = 1
     \<and> DoCooling st' 1 1 1 zero_UVBG 1 0 1 = Some (Inr (0, 1))"
proof -
  from InitCool_no_files_returns[of no_files False 1 1 1 1 1 1 0 initial_cool_state]
  obtain st' where r: "InitCool no_files False 1 1 [] [] [] 1 1 1 1 0 initial_cool_state = Inr st'"
    by blast
  from InitCool_empty_TreeCool_DoCooling_zero[of no_files False 1 1 "[]" "[]" 1 1 1 1 0 initial_cool_state st' 1 1 1 zero_UVBG 1 0 1] r
  show ?thesis by blast
qed

text \<open>The claim as stated in C3 fails: after \<^verbatim>\<open>InitCool\<close> with empty file names,
  \<^verbatim>\<open>DoCooling\<close> called with \<open>u_old = 1\<close> returns 0 and not 1.\<close>

theorem DoCooling_disabled_returns_zero_example:
  "\<not> isl (InitCool no_files False 1 1 [] [] [] 1 1 1 1 0 initial_cool_state)
   \<and> DoCooling (projr (InitCool no_files False 1 1 [] [] [] 1 1 1 1 0 initial_cool_state))
        1 1 1 zero_UVBG 1 0 1 = Some (Inr (0, 1))
   \<and> DoCooling (projr (InitCool no_files False 1 1 [] [] [] 1 1 1 1 0 initial_cool_state))
        1 1 1 zero_UVBG 1 0 1 \<noteq> Some (Inr (1, 1))"
proof -
  from InitCool_no_files_returns[of no_files False 1 1 1 1 1 1 0 initial_cool_state]
  obtain st' where r: "InitCool no_files False 1 1 [] [] [] 1 1 1 1 0 initial_cool_state = Inr st'"
    by blast
  from InitCool_empty_treecool[OF r] have "CoolingNoPrimordial st' \<noteq> 0" by simp
  from DoCooling_disabled[OF this, of 1 1 1 zero_UVBG 1 0 1] show ?thesis by (simp add: r)
qed

text \<open>
  C4. Let the net rate be what \<^verbatim>\<open>CoolingRateFromU\<close> returns at \<open>u_old\<close> (in cgs units,
  with the hydrogen density of the call). If it is not negative, \<^verbatim>\<open>GetCoolingTime\<close> returns
  exactly 0; and whenever \<^verbatim>\<open>GetCoolingTime\<close> returns a value other than 0, the net rate is
  strictly negative.
\<close>

theorem GetCoolingTime_zero_unless_net_cooling:
  assumes "CoolingRateFromU st (u_old * units_uu st)
        (HYDROGEN_MASSFRAC * (rho * units_density st) / PROTONMASS) uvbg ne_guess Z Time
       = Inr (LambdaNet, ne1)"
  shows "(LambdaNet \<ge> 0 \<longrightarrow> GetCoolingTime st u_old rho uvbg ne_guess Z Time = Inr (0, ne1))
    \<and> (\<forall>t ne2. GetCoolingTime st u_old rho uvbg ne_guess Z Time = Inr (t, ne2) \<and> t \<noteq> 0
          \<longrightarrow> LambdaNet < 0)"
  using assms by (auto simp: GetCoolingTime_def Let_def CoolingRateFromU_def split: if_splits)

lemma solve_equilibrium_temp_unit:
  "solve_equilibrium_temp (heated_state\<lparr>metal_rate := m\<rparr>) unit_temp_u nH zero_UVBG
      (local_abundance\<lparr>ne := 0\<rparr>)
   = Inr (1, \<lparr>ne = 0, nH0 = 1, nHp = 0, nHe0 = YHELIUM, nHep = 0, nHepp = 0\<rparr>)"
  unfolding solve_equilibrium_temp_def
  apply (subst set_loop.simps)
  apply (simp add: local_abundance_def Let_def heated_state_def unit_temp_u_def BOLTZMANN_def
      PROTONMASS_def YHELIUM_def HYDROGEN_MASSFRAC_def find_abundances_and_rates_def
      flat_tables_def DMAX_def MAXITER_def)
  done

lemma PrimordialCoolingRate_cold:
  "PrimordialCoolingRate (heated_state\<lparr>metal_rate := m\<rparr>) 0 nH zero_UVBG 0 z = Inr (0, 0)"
  unfolding PrimordialCoolingRate_def
  by (simp add: Let_def heated_state_def flat_tables_def Tmax_def find_abundances_and_rates_def
      fa_interior_def fa_loop_no_uv zero_UVBG_def fa_pass_def interp_tab_def local_abundance_def
      local_rates_def SMALLNUM_def MAXITER_def c_int_def)

lemma CoolingRateFromU_metal:
  "CoolingRateFromU (heated_state\<lparr>metal_rate := (\<lambda>redshift lognH logT. v)\<rparr>) unit_temp_u nH
      zero_UVBG 0 1 1 = Inr (- v, 0)"
  unfolding CoolingRateFromU_def
  apply (simp add: solve_equilibrium_temp_unit Let_def PrimordialCoolingRate_cold)
  apply (simp add: heated_state_def TableMetalCoolingRate_def)
  done

lemma GetCoolingTime_cooled:
  "GetCoolingTime cooled_state unit_temp_u 1 zero_UVBG 0 1 1
   = Inr (unit_temp_u / (HYDROGEN_MASSFRAC / PROTONMASS * (HYDROGEN_MASSFRAC / PROTONMASS)), 0)"
proof -
  have u: "units_uu cooled_state = 1" "units_density cooled_state = 1"
    "units_time cooled_state = 1" "CoolingNoPrimordial cooled_state = 0"
    by (simp_all add: cooled_state_def heated_state_def)
  show ?thesis
    unfolding GetCoolingTime_def Let_def u
    by (simp add: cooled_state_def CoolingRateFromU_metal)
qed

theorem GetCoolingTime_zero_unless_net_cooling_witness:
  "CoolingRateFromU heated_state (unit_temp_u * units_uu heated_state)
        (HYDROGEN_MASSFRAC * (1 * units_density heated_state) / PROTONMASS) zero_UVBG 0 1 1
       = Inr (1, 0)
   \<and> (1::real) \<ge> 0
   \<and> GetCoolingTime heated_state unit_temp_u 1 zero_UVBG 0 1 1 = Inr (0, 0)
   \<and> CoolingRateFromU cooled_state (unit_temp_u * units_uu cooled_state)
        (HYDROGEN_MASSFRAC * (1 * units_density cooled_state) / PROTONMASS) zero_UVBG 0 1 1
       = Inr (- 1, 0)
   \<and> GetCoolingTime cooled_state unit_temp_u 1 zero_UVBG 0 1 1
       = Inr (unit_temp_u / (HYDROGEN_MASSFRAC / PROTONMASS * (HYDROGEN_MASSFRAC / PROTONMASS)), 0)
   \<and> unit_temp_u / (HYDROGEN_MASSFRAC / PROTONMASS * (HYDROGEN_MASSFRAC / PROTONMASS)) \<noteq> 0
   \<and> (- 1::real) < 0"
proof -
  have hs: "heated_state\<lparr>metal_rate := (\<lambda>redshift lognH logT. - 1)\<rparr> = heated_state"
    by (simp add: heated_state_def)
  have u: "units_uu heated_state = 1" "units_density heated_state = 1"
    "units_uu cooled_state = 1" "units_density cooled_state = 1"
    by (simp_all add: cooled_state_def heated_state_def)
  have r: "CoolingRateFromU heated_state (unit_temp_u * units_uu heated_state)
        (HYDROGEN_MASSFRAC * (1 * units_density heated_state) / PROTONMASS) zero_UVBG 0 1 1
       = Inr (1, 0)"
    using CoolingRateFromU_metal[of "- 1" "HYDROGEN_MASSFRAC * (1 * 1) / PROTONMASS"]
    by (simp add: hs u)
  have c: "CoolingRateFromU cooled_state (unit_temp_u * units_uu cooled_state)
        (HYDROGEN_MASSFRAC * (1 * units_density cooled_state) / PROTONMASS) zero_UVBG 0 1 1
       = Inr (- 1, 0)"
    using CoolingRateFromU_metal[of 1 "HYDROGEN_MASSFRAC * (1 * 1) / PROTONMASS"]
    by (simp add: u) (simp add: cooled_state_def)
  have nz: "unit_temp_u / (HYDROGEN_MASSFRAC / PROTONMASS * (HYDROGEN_MASSFRAC / PROTONMASS)) \<noteq> 0"
    by (simp add: unit_temp_u_def HYDROGEN_MASSFRAC_def PROTONMASS_def BOLTZMANN_def)
  from GetCoolingTime_zero_unless_net_cooling[OF r]
  have a: "GetCoolingTime heated_state unit_temp_u 1 zero_UVBG 0 1 1 = Inr (0, 0)" by simp
  from GetCoolingTime_zero_unless_net_cooling[OF c] GetCoolingTime_cooled nz
  have b: "(- 1::real) < 0" by blast
  from r a c GetCoolingTime_cooled nz b show ?thesis by simp
qed

section \<open>Properties of \<^verbatim>\<open>IonizeParamsTable\<close>\<close>

lemma find_ilow_inv:
  assumes "0 \<le> i" "i \<le> nheattab t" "i = 0 \<longrightarrow> ilow = 0"
    "0 < i \<longrightarrow> ilow = i - 1 \<and> inlogz t ilow < logz"
  shows "(find_ilow t logz i ilow = 0 \<and> i = 0 \<and> \<not> (0 < nheattab t \<and> inlogz t 0 < logz))
     \<or> (0 \<le> find_ilow t logz i ilow \<and> find_ilow t logz i ilow < nheattab t
         \<and> inlogz t (find_ilow t logz i ilow) < logz
         \<and> (find_ilow t logz i ilow + 1 < nheattab t
              \<longrightarrow> \<not> inlogz t (find_ilow t logz i ilow + 1) < logz))"
  using assms
proof (induction t logz i ilow rule: find_ilow.induct)
  case (1 t logz i ilow)
  show ?case
  proof (cases "i < nheattab t \<and> inlogz t i < logz")
    case True
    then have e: "find_ilow t logz i ilow = find_ilow t logz (i + 1) i"
      by (subst find_ilow.simps) simp
    from True "1.prems" have "0 \<le> i + 1" "i + 1 \<le> nheattab t" "i + 1 = 0 \<longrightarrow> i = 0"
      "0 < i + 1 \<longrightarrow> i = i + 1 - 1 \<and> inlogz t i < logz" by auto
    from "1.IH"[OF _ _ this] True "1.prems"(1) show ?thesis unfolding e by auto
  next
    case False
    then have e: "find_ilow t logz i ilow = ilow"
      by (subst find_ilow.simps) auto
    show ?thesis unfolding e using False "1.prems" by (cases "i = 0") auto
  qed
qed

lemma find_ilow_brackets:
  assumes "0 < nheattab t" "inlogz t 0 < logz" "logz \<le> inlogz t (nheattab t - 1)"
  shows "0 \<le> find_ilow t logz 0 0 \<and> find_ilow t logz 0 0 + 1 < nheattab t
     \<and> inlogz t (find_ilow t logz 0 0) < logz
     \<and> logz \<le> inlogz t (find_ilow t logz 0 0 + 1)"
proof -
  let ?r = "find_ilow t logz 0 0"
  from find_ilow_inv[of 0 t 0 logz] assms
  have r: "0 \<le> ?r" "?r < nheattab t" "inlogz t ?r < logz"
    "?r + 1 < nheattab t \<longrightarrow> \<not> inlogz t (?r + 1) < logz" by auto
  have "?r \<noteq> nheattab t - 1" using r(3) assms(3) by auto
  with r show ?thesis by auto
qed

text \<open>
  C6. For a time (scale factor) above zero, with \<open>logz = log10(1 + z)\<close> of that time and \<^verbatim>\<open>ilow\<close> the row found by the
  loop: if \<open>logz\<close> lies above the last row in use, or \<^verbatim>\<open>gH0\<close> is zero in row \<^verbatim>\<open>ilow\<close> or in
  the next row, or the table is empty, the global UV background is set to all zeros,
  \<open>J_UV\<close> included. Otherwise \<open>J_UV\<close> is set to a value other than zero and each of the six
  rates is the log-log interpolation between row \<^verbatim>\<open>ilow\<close> and the next row; when \<open>logz\<close>
  lies above the first row, these two rows bracket \<open>logz\<close>.
\<close>

theorem IonizeParamsTable_uvbg:
  assumes "0 < Time"
  shows "let t = treecool st;
       logz = log 10 (1 / Time - 1 + 1);
       ilow = find_ilow t logz 0 0;
       dzlow = logz - inlogz t ilow;
       dzhi = inlogz t (ilow + 1) - logz;
       lg = (\<lambda>lo hi. (dzhi * log 10 lo + dzlow * log 10 hi) / (dzlow + dzhi));
       G = GlobalUVBG (IonizeParamsTable Time st)
   in (logz > inlogz t (nheattab t - 1) \<longrightarrow> G = zero_UVBG)
      \<and> (gH0 t ilow = 0 \<or> gH0 t (ilow + 1) = 0 \<longrightarrow> G = zero_UVBG)
      \<and> (nheattab t = 0 \<longrightarrow> G = zero_UVBG)
      \<and> (\<not> logz > inlogz t (nheattab t - 1) \<and> gH0 t ilow \<noteq> 0 \<and> gH0 t (ilow + 1) \<noteq> 0
            \<and> nheattab t \<noteq> 0 \<longrightarrow>
          J_UV G \<noteq> 0
          \<and> gJH0 G = 10 powr lg (gH0 t ilow) (gH0 t (ilow + 1))
          \<and> gJHe0 G = 10 powr lg (gHe t ilow) (gHe t (ilow + 1))
          \<and> gJHep G = 10 powr lg (gHep t ilow) (gHep t (ilow + 1))
          \<and> epsH0 G = 10 powr lg (eH0 t ilow) (eH0 t (ilow + 1))
          \<and> epsHe0 G = 10 powr lg (eHe t ilow) (eHe t (ilow + 1))
          \<and> epsHep G = 10 powr lg (eHep t ilow) (eHep t (ilow + 1))
          \<and> (0 < nheattab t \<and> inlogz t 0 < logz \<longrightarrow>
                0 \<le> ilow \<and> ilow + 1 < nheattab t
                \<and> inlogz t ilow < logz \<and> logz \<le> inlogz t (ilow + 1)))"
proof -
  have br: "\<not> log 10 (1 / Time - 1 + 1) > inlogz (treecool st) (nheattab (treecool st) - 1) \<Longrightarrow>
     0 < nheattab (treecool st) \<Longrightarrow> inlogz (treecool st) 0 < log 10 (1 / Time - 1 + 1) \<Longrightarrow>
     0 \<le> find_ilow (treecool st) (log 10 (1 / Time - 1 + 1)) 0 0 \<and>
     find_ilow (treecool st) (log 10 (1 / Time - 1 + 1)) 0 0 + 1 < nheattab (treecool st) \<and>
     inlogz (treecool st) (find_ilow (treecool st) (log 10 (1 / Time - 1 + 1)) 0 0)
       < log 10 (1 / Time - 1 + 1) \<and>
     log 10 (1 / Time - 1 + 1)
       \<le> inlogz (treecool st) (find_ilow (treecool st) (log 10 (1 / Time - 1 + 1)) 0 0 + 1)"
    by (rule find_ilow_brackets) simp_all
  show ?thesis
    unfolding Let_def IonizeParamsTable_def
    using br by (simp add: loglog_interp_def JAMPL_def)
qed

lemma find_ilow_three:
  "find_ilow three_row_treecool 1 0 0 = 0"
  by (simp add: find_ilow.simps three_row_treecool_def)

theorem IonizeParamsTable_uvbg_witness:
  "(0::real) < 1 / 10
   \<and> J_UV (GlobalUVBG (IonizeParamsTable (1 / 10)
           (initial_cool_state\<lparr>treecool := three_row_treecool\<rparr>))) \<noteq> 0
   \<and> gJH0 (GlobalUVBG (IonizeParamsTable (1 / 10)
           (initial_cool_state\<lparr>treecool := three_row_treecool\<rparr>))) = 1
   \<and> epsHep (GlobalUVBG (IonizeParamsTable (1 / 10)
           (initial_cool_state\<lparr>treecool := three_row_treecool\<rparr>))) = 1
   \<and> GlobalUVBG (IonizeParamsTable (1 / 10)
           (initial_cool_state\<lparr>treecool := three_row_treecool\<lparr>inlogz := (\<lambda>i. real_of_int i / 4)\<rparr>\<rparr>))
       = zero_UVBG
   \<and> GlobalUVBG (IonizeParamsTable (1 / 10) (initial_cool_state\<lparr>treecool := empty_treecool\<rparr>))
       = zero_UVBG"
proof -
  have lz: "log 10 (1 / (1 / 10) - 1 + 1) = (1::real)" by simp
  have a: "J_UV (GlobalUVBG (IonizeParamsTable (1 / 10)
           (initial_cool_state\<lparr>treecool := three_row_treecool\<rparr>))) \<noteq> 0
   \<and> gJH0 (GlobalUVBG (IonizeParamsTable (1 / 10)
           (initial_cool_state\<lparr>treecool := three_row_treecool\<rparr>))) = 1
   \<and> epsHep (GlobalUVBG (IonizeParamsTable (1 / 10)
           (initial_cool_state\<lparr>treecool := three_row_treecool\<rparr>))) = 1"
    using IonizeParamsTable_uvbg[of "1 / 10" "initial_cool_state\<lparr>treecool := three_row_treecool\<rparr>"]
    unfolding Let_def lz
    by (simp add: find_ilow_three) (simp add: three_row_treecool_def)
  have b: "GlobalUVBG (IonizeParamsTable (1 / 10)
           (initial_cool_state\<lparr>treecool := three_row_treecool\<lparr>inlogz := (\<lambda>i. real_of_int i / 4)\<rparr>\<rparr>))
       = zero_UVBG"
    using IonizeParamsTable_uvbg[of "1 / 10" "initial_cool_state\<lparr>treecool := three_row_treecool\<lparr>inlogz := (\<lambda>i. real_of_int i / 4)\<rparr>\<rparr>"]
    unfolding Let_def lz
    by (simp add: three_row_treecool_def)
  have c: "GlobalUVBG (IonizeParamsTable (1 / 10) (initial_cool_state\<lparr>treecool := empty_treecool\<rparr>))
       = zero_UVBG"
    using IonizeParamsTable_uvbg[of "1 / 10" "initial_cool_state\<lparr>treecool := empty_treecool\<rparr>"]
    unfolding Let_def lz
    by (simp add: empty_treecool_def)
  from a b c show ?thesis by simp
qed

section \<open>Properties of the tree walk\<close>

lemma barnes_hut_criterion:
  "ErrTolTheta env \<noteq> 0 \<Longrightarrow>
   opening_criterion env q nop \<longleftrightarrow>
     node_len nop * node_len nop > node_r2 env q nop * ErrTolTheta env * ErrTolTheta env"
  by (simp add: opening_criterion_def Let_def)

text \<open>
  C5, as the code has it. Take an internal node (an index from \<^verbatim>\<open>All.MaxPart\<close> up to, but
  not including, \<^verbatim>\<open>All.MaxPart + MaxNodes\<close>) that the walk tests against the opening
  criterion: the node is not a top-level node met in mode 1, its flag for multiple
  particles is set, and the cutoff test does not skip it. Let the Barnes-Hut criterion
  be active (\<^verbatim>\<open>All.ErrTolTheta\<close> not zero). Then the criterion holds exactly when
  \<open>len * len > r2 * theta * theta\<close>, and when it holds the walk opens the node (it goes on
  with \<^verbatim>\<open>nextnode\<close>). A node exactly at the threshold
  (\<open>len * len = r2 * theta * theta\<close>) does not satisfy the criterion: the walk opens it
  only if the softening test does, and otherwise does not descend but takes the node as a
  point mass, that is, it goes on with the sibling and reaches the force kernel with the
  mass of the node and the distance to its centre of mass.
\<close>

theorem barnes_hut_threshold_accepted:
  assumes "ErrTolTheta env \<noteq> 0"
    and "MaxPart env \<le> no" and "no < MaxPart env + MaxNodes env" and "Nodes env no = nop"
    and "\<not> (lv_mode q = 1 \<and> bit (node_bitflags nop) (BITFLAG_TOPLEVEL env))"
    and "bit (node_bitflags nop) (BITFLAG_MULTIPLEPARTICLES env)"
    and "\<not> outside_cutoff env q nop"
  shows "(opening_criterion env q nop \<longleftrightarrow>
            node_len nop * node_len nop > node_r2 env q nop * ErrTolTheta env * ErrTolTheta env)
    \<and> (node_len nop * node_len nop > node_r2 env q nop * ErrTolTheta env * ErrTolTheta env
           \<longrightarrow> treeev_visit env q no = Continue (node_nextnode nop))
    \<and> (node_len nop * node_len nop = node_r2 env q nop * ErrTolTheta env * ErrTolTheta env
           \<longrightarrow> \<not> opening_criterion env q nop
             \<and> treeev_visit env q no =
                 (if fst (node_softening env q nop) then Continue (node_nextnode nop)
                  else Interact (node_sibling nop)
                         (node_dx env q nop 0) (node_dx env q nop 1) (node_dx env q nop 2)
                         (node_r2 env q nop) (node_mass nop) (snd (node_softening env q nop))))"
  using assms by (auto simp: treeev_visit_def Let_def barnes_hut_criterion)

lemma threshold_fields:
  "MaxPart threshold_env = 10" "MaxNodes threshold_env = 10"
  "Nodes threshold_env no = threshold_node" "ErrTolTheta threshold_env = 1 / 2"
  "BITFLAG_MULTIPLEPARTICLES threshold_env = 0" "lv_mode origin_query = 0"
  "node_bitflags threshold_node = 1" "node_len threshold_node = 1"
  "node_nextnode threshold_node = 11" "node_sibling threshold_node = 12"
  "node_mass threshold_node = 1"
  by (simp_all add: threshold_env_def origin_query_def threshold_node_def)

lemma threshold_dx:
  "node_dx threshold_env origin_query threshold_node k = (if k = 0 then 2 else 0)"
  by (simp add: node_dx_def threshold_env_def origin_query_def threshold_node_def)

lemma threshold_r2: "node_r2 threshold_env origin_query threshold_node = 4"
  by (simp add: node_r2_def threshold_dx)

lemma threshold_inside_cutoff: "\<not> outside_cutoff threshold_env origin_query threshold_node"
  unfolding outside_cutoff_def Let_def threshold_r2
  by (simp add: threshold_env_def)

lemma threshold_not_opened: "\<not> opening_criterion threshold_env origin_query threshold_node"
  unfolding opening_criterion_def Let_def threshold_r2
  by (simp add: threshold_fields)

lemma threshold_softening:
  "node_softening threshold_env origin_query threshold_node = (False, 0)"
  unfolding node_softening_def Let_def threshold_r2
  by (simp add: threshold_env_def)

lemma threshold_visit:
  "treeev_visit threshold_env origin_query 10 = Interact 12 2 0 0 4 1 0"
  unfolding treeev_visit_def Let_def
  by (simp add: threshold_fields threshold_inside_cutoff threshold_not_opened
      threshold_softening threshold_dx threshold_r2)

theorem barnes_hut_threshold_accepted_witness:
  "ErrTolTheta threshold_env \<noteq> 0 \<and> MaxPart threshold_env \<le> 10
   \<and> 10 < MaxPart threshold_env + MaxNodes threshold_env
   \<and> Nodes threshold_env 10 = threshold_node
   \<and> \<not> (lv_mode origin_query = 1
          \<and> bit (node_bitflags threshold_node) (BITFLAG_TOPLEVEL threshold_env))
   \<and> bit (node_bitflags threshold_node) (BITFLAG_MULTIPLEPARTICLES threshold_env)
   \<and> \<not> outside_cutoff threshold_env origin_query threshold_node
   \<and> node_len threshold_node * node_len threshold_node
       = node_r2 threshold_env origin_query threshold_node
           * ErrTolTheta threshold_env * ErrTolTheta threshold_env
   \<and> \<not> opening_criterion threshold_env origin_query threshold_node
   \<and> treeev_visit threshold_env origin_query 10 = Interact 12 2 0 0 4 1 0"
proof -
  have h: "ErrTolTheta threshold_env \<noteq> 0" "MaxPart threshold_env \<le> 10"
    "10 < MaxPart threshold_env + MaxNodes threshold_env"
    "Nodes threshold_env 10 = threshold_node"
    "\<not> (lv_mode origin_query = 1
          \<and> bit (node_bitflags threshold_node) (BITFLAG_TOPLEVEL threshold_env))"
    "bit (node_bitflags threshold_node) (BITFLAG_MULTIPLEPARTICLES threshold_env)"
    "\<not> outside_cutoff threshold_env origin_query threshold_node"
    by (simp_all add: threshold_fields threshold_inside_cutoff)
  have e: "node_len threshold_node * node_len threshold_node
       = node_r2 threshold_env origin_query threshold_node
           * ErrTolTheta threshold_env * ErrTolTheta threshold_env"
    by (simp add: threshold_fields threshold_r2)
  from barnes_hut_threshold_accepted[OF h] e h show ?thesis
    by (simp add: threshold_softening threshold_dx threshold_r2 threshold_fields)
qed

text \<open>The claim as stated in C5 fails: a node of side 1 with several particles, inside
  the cutoff, at distance 2 and with opening angle 1/2 lies exactly at the threshold; the
  walk does not descend into it (its \<^verbatim>\<open>nextnode\<close> is 11) but reaches the force kernel with
  it and goes on with the sibling 12.\<close>

theorem barnes_hut_threshold_example:
  "ErrTolTheta threshold_env \<noteq> 0
   \<and> node_len threshold_node * node_len threshold_node
       = node_r2 threshold_env origin_query threshold_node
           * ErrTolTheta threshold_env * ErrTolTheta threshold_env
   \<and> Nodes threshold_env 10 = threshold_node
   \<and> treeev_visit threshold_env origin_query 10 = Interact 12 2 0 0 4 1 0
   \<and> treeev_visit threshold_env origin_query 10 \<noteq> Continue (node_nextnode threshold_node)"
  by (simp add: threshold_visit threshold_r2 threshold_fields)

section \<open>Properties of \<^verbatim>\<open>find_next_sync_point_and_drift\<close>\<close>

lemma c_rem_zero_iff: "c_rem a (shl1 n) = 0 \<longleftrightarrow> 2 ^ nat n dvd a"
proof -
  have "c_rem a (shl1 n) = 0 \<longleftrightarrow> \<bar>a\<bar> mod 2 ^ nat n = 0"
    by (auto simp: c_rem_def shl1_def sgn_if)
  also have "\<dots> \<longleftrightarrow> (2::int) ^ nat n dvd \<bar>a\<bar>" by (simp add: dvd_eq_mod_eq_0)
  also have "\<dots> \<longleftrightarrow> 2 ^ nat n dvd a" by simp
  finally show ?thesis .
qed

lemma mark_loop_spec:
  "mark_loop tbins tg cnt n active num =
     ((\<lambda>m. if n \<le> m \<and> m < tbins then (if 2 ^ nat m dvd tg then 1 else 0) else active m),
      num + (\<Sum>m\<in>{n..<tbins}. if 2 ^ nat m dvd tg then cnt m else 0))"
proof (induction tbins tg cnt n active num rule: mark_loop.induct)
  case (1 tbins tg cnt n active num)
  show ?case
  proof (cases "n < tbins")
    case False
    then show ?thesis by (subst mark_loop.simps) auto
  next
    case True
    have split: "{n..<tbins} = insert n {n + 1..<tbins}" using True by auto
    have fin: "n \<notin> {n + 1..<tbins}" by simp
    show ?thesis
    proof (cases "c_rem tg (shl1 n) = 0")
      case T2: True
      then have d: "2 ^ nat n dvd tg" by (simp add: c_rem_zero_iff)
      have "mark_loop tbins tg cnt n active num
          = mark_loop tbins tg cnt (n + 1) (active(n := 1)) (num + cnt n)"
        by (subst mark_loop.simps) (simp add: True T2 Let_def)
      also note "1.IH"(1)[OF True refl T2]
      finally show ?thesis
        using d True by (auto simp: fun_eq_iff split)
    next
      case F2: False
      then have d: "\<not> 2 ^ nat n dvd tg" by (simp add: c_rem_zero_iff)
      have "mark_loop tbins tg cnt n active num
          = mark_loop tbins tg cnt (n + 1) (active(n := 0)) num"
        by (subst mark_loop.simps) (simp add: True F2 Let_def)
      also note "1.IH"(2)[OF True refl F2]
      finally show ?thesis
        using d True by (auto simp: fun_eq_iff split)
    qed
  qed
qed

lemma next_kick_loop_le: "next_kick_loop tbins tc cnt n k \<le> k"
proof (induction tbins tc cnt n k rule: next_kick_loop.induct)
  case (1 tbins tc cnt n k)
  show ?case
    apply (subst next_kick_loop.simps)
    using 1
    apply (auto simp: Let_def split: if_splits)
    done
qed

lemma fold_min_le: "fold min xs (a::int) \<le> a"
proof (induction xs arbitrary: a)
  case Nil
  show ?case by simp
next
  case (Cons x xs)
  have "fold min xs (min x a) \<le> min x a" by (rule Cons.IH)
  then show ?case by simp
qed

lemma outputtime_loop_ge: "outputtime_loop st c xs = - 1 \<or> outputtime_loop st c xs \<ge> c"
  by (induction xs) (auto simp: Let_def)

lemma find_next_outputtime_ge:
  "find_next_outputtime st c = 2 * TIMEBASE st \<or> find_next_outputtime st c \<ge> c"
  using outputtime_loop_ge[of st c "OutputListTimes st"]
  by (auto simp: find_next_outputtime_def Let_def)

text \<open>The loop over the pending outputs ends (for a positive \<^verbatim>\<open>TIMEBASE\<close>), and it leaves
  the bins alone.\<close>

lemma output_loop_terminates:
  assumes "tg \<le> TIMEBASE st" "0 < TIMEBASE st"
  shows "\<exists>st'. output_loop sf tg st = Some st' \<and> TIMEBINS st' = TIMEBINS st
     \<and> TIMEBASE st' = TIMEBASE st
     \<and> TimeBinCount st' = TimeBinCount st \<and> TimeBinActive st' = TimeBinActive st
     \<and> TotNumPart st' = TotNumPart st
     \<and> NumForcesSinceLastDomainDecomp st' = NumForcesSinceLastDomainDecomp st
     \<and> FirstInTimeBin st' = FirstInTimeBin st \<and> NextInTimeBin st' = NextInTimeBin st
     \<and> FirstActiveParticle st' = FirstActiveParticle st
     \<and> NextActiveParticle st' = NextActiveParticle st \<and> drift_calls st' = drift_calls st"
  using assms
proof (induction "nat (tg + 1 - Ti_nextoutput st)" arbitrary: st rule: less_induct)
  case less
  show ?case
  proof (cases "tg \<ge> Ti_nextoutput st \<and> Ti_nextoutput st \<ge> 0")
    case False
    then show ?thesis by (subst output_loop.simps) auto
  next
    case True
    define st1 where "st1 = st\<lparr>Ti_Current := Ti_nextoutput st\<rparr>"
    define st2 where "st2 = st1\<lparr>All_Time := All_TimeBegin st1 * exp (real_of_int (Ti_Current st1) * Timebase_interval st1)\<rparr>"
    define st3 where "st3 = st2\<lparr>snapshots := snapshots st2 @ [(SnapshotFileCount st2, Ti_Current st2)],
                     SnapshotFileCount := SnapshotFileCount st2 + 1\<rparr>"
    define st4 where "st4 = st3\<lparr>Ti_nextoutput := find_next_outputtime st3 (Ti_nextoutput st3 + 1)\<rparr>"
    have step: "output_loop sf tg st = output_loop sf tg st4"
      by (subst output_loop.simps) (simp add: True Let_def st1_def st2_def st3_def st4_def)
    have tb: "TIMEBASE st3 = TIMEBASE st" "Ti_nextoutput st3 = Ti_nextoutput st"
      by (simp_all add: st1_def st2_def st3_def)
    have inv: "TIMEBINS st4 = TIMEBINS st" "TIMEBASE st4 = TIMEBASE st"
      "TimeBinCount st4 = TimeBinCount st" "TimeBinActive st4 = TimeBinActive st"
      "TotNumPart st4 = TotNumPart st"
      "NumForcesSinceLastDomainDecomp st4 = NumForcesSinceLastDomainDecomp st"
      "FirstInTimeBin st4 = FirstInTimeBin st" "NextInTimeBin st4 = NextInTimeBin st"
      "FirstActiveParticle st4 = FirstActiveParticle st"
      "NextActiveParticle st4 = NextActiveParticle st" "drift_calls st4 = drift_calls st"
      by (simp_all add: st1_def st2_def st3_def st4_def)
    have "Ti_nextoutput st4 = find_next_outputtime st3 (Ti_nextoutput st + 1)"
      by (simp add: st4_def tb)
    with find_next_outputtime_ge[of st3 "Ti_nextoutput st + 1"] tb less.prems
    have grow: "Ti_nextoutput st4 > Ti_nextoutput st" using True by auto
    then have "nat (tg + 1 - Ti_nextoutput st4) < nat (tg + 1 - Ti_nextoutput st)"
      using True by auto
    from less.hyps[OF this] less.prems inv
    show ?thesis unfolding step by auto
  qed
qed

lemma mark_bins_active:
  "fst (mark_bins tbins tg cnt active) n =
     (if n = 0 then 1 else if 1 \<le> n \<and> n < tbins then (if 2 ^ nat n dvd tg then 1 else 0)
      else active n)"
  by (simp add: mark_bins_def mark_loop_spec)

lemma mark_bins_count:
  assumes "1 \<le> tbins"
  shows "snd (mark_bins tbins tg cnt active) =
     (\<Sum>n\<in>{0..<tbins}. if fst (mark_bins tbins tg cnt' active') n = 1 then cnt n else 0)"
proof -
  have split: "{0..<tbins} = insert 0 {1..<tbins}" using assms by auto
  have "(\<Sum>n\<in>{0..<tbins}. if fst (mark_bins tbins tg cnt' active') n = 1 then cnt n else 0)
      = cnt 0 + (\<Sum>n\<in>{1..<tbins}. if fst (mark_bins tbins tg cnt' active') n = 1 then cnt n else 0)"
    unfolding split by (simp add: mark_bins_active)
  also have "(\<Sum>n\<in>{1..<tbins}. if fst (mark_bins tbins tg cnt' active') n = 1 then cnt n else 0)
      = (\<Sum>n\<in>{1..<tbins}. if 2 ^ nat n dvd tg then cnt n else 0)"
    by (rule sum.cong) (auto simp: mark_bins_active)
  finally show ?thesis by (simp add: mark_bins_def mark_loop_spec)
qed

lemma ti_next_kick_global_le:
  "allreduce_min (ti_next_kick_of st cnt) xs \<le> TIMEBASE st"
  unfolding allreduce_min_def ti_next_kick_of_def
  by (rule order_trans[OF fold_min_le next_kick_loop_le])


text \<open>
  C9. With at least one bin and a positive \<^verbatim>\<open>TIMEBASE\<close> the function reaches the end of
  the marking (line 241). There \<^verbatim>\<open>All.Ti_Current\<close> is the global kick time (the minimum
  over the ranks of their next kick times), bin 0 is marked active, a bin \<open>n\<close> with
  \<open>1 \<le> n < TIMEBINS\<close> is marked active if \<open>2^n\<close> divides the global kick time and
  inactive otherwise, and \<^verbatim>\<open>GlobNumForceUpdate\<close> is the sum, over the ranks and over the
  active bins, of the bin counts. The rest of the function changes none of this: whenever
  the function returns, the marks, the kick time and the global count are those.
\<close>

theorem active_bins_after_sync:
  assumes "1 \<le> TIMEBINS st" and "0 < TIMEBASE st"
  shows "\<exists>m. sync_point_and_mark stopflag others st = Some m
     \<and> Ti_Current m =
         allreduce_min (ti_next_kick_of st (TimeBinCount st))
           (map (\<lambda>rk. ti_next_kick_of st (r_TimeBinCount rk)) others)
     \<and> TimeBinActive m 0 = 1
     \<and> (\<forall>n. 1 \<le> n \<and> n < TIMEBINS st \<longrightarrow>
           (TimeBinActive m n = 1 \<longleftrightarrow> 2 ^ nat n dvd Ti_Current m)
           \<and> (TimeBinActive m n = 0 \<longleftrightarrow> \<not> 2 ^ nat n dvd Ti_Current m))
     \<and> GlobNumForceUpdate m =
         (\<Sum>cnt\<leftarrow>TimeBinCount st # map r_TimeBinCount others.
            \<Sum>n\<in>{0..<TIMEBINS st}. if TimeBinActive m n = 1 then cnt n else 0)
     \<and> (\<forall>st'. find_next_sync_point_and_drift stopflag others st = Some (Inr st') \<longrightarrow>
           Ti_Current st' = Ti_Current m \<and> TimeBinActive st' = TimeBinActive m
           \<and> GlobNumForceUpdate st' = GlobNumForceUpdate m)"
proof -
  define tg where "tg = allreduce_min (ti_next_kick_of st (TimeBinCount st))
           (map (\<lambda>rk. ti_next_kick_of st (r_TimeBinCount rk)) others)"
  have "tg \<le> TIMEBASE st" unfolding tg_def by (rule ti_next_kick_global_le)
  from output_loop_terminates[OF this assms(2), of stopflag]
  obtain s1 where s1: "output_loop stopflag tg st = Some s1" "TIMEBINS s1 = TIMEBINS st"
    "TimeBinCount s1 = TimeBinCount st" by blast
  obtain act num0 where mb:
    "mark_bins (TIMEBINS st) tg (TimeBinCount st) (TimeBinActive s1) = (act, num0)"
    by (cases "mark_bins (TIMEBINS st) tg (TimeBinCount st) (TimeBinActive s1)") auto
  have "\<exists>m. sync_point_and_mark stopflag others st = Some m"
    unfolding sync_point_and_mark_def
    by (simp add: tg_def[symmetric] s1 Let_def split: prod.splits)
  then obtain m where r: "sync_point_and_mark stopflag others st = Some m" ..
  have f: "Ti_Current m = tg" "TimeBinActive m = act"
    "GlobNumForceUpdate m = sumup_large_ints num0
       (map (\<lambda>rk. snd (mark_bins (TIMEBINS st) tg (r_TimeBinCount rk) act)) others)"
    using r unfolding sync_point_and_mark_def
    by (auto simp add: tg_def[symmetric] s1 Let_def mb)
  have act: "act = fst (mark_bins (TIMEBINS st) tg (TimeBinCount st) (TimeBinActive s1))"
    by (simp add: mb)
  have a0: "act 0 = 1" by (simp add: act mark_bins_active)
  have an: "\<forall>n. 1 \<le> n \<and> n < TIMEBINS st \<longrightarrow>
           (act n = 1 \<longleftrightarrow> 2 ^ nat n dvd tg) \<and> (act n = 0 \<longleftrightarrow> \<not> 2 ^ nat n dvd tg)"
    by (simp add: act mark_bins_active)
  have cnt: "snd (mark_bins (TIMEBINS st) tg c a)
      = (\<Sum>n\<in>{0..<TIMEBINS st}. if act n = 1 then c n else 0)" for c a
    unfolding act by (rule mark_bins_count[OF assms(1)])
  have "num0 = snd (mark_bins (TIMEBINS st) tg (TimeBinCount st) (TimeBinActive s1))"
    by (simp add: mb)
  then have g: "GlobNumForceUpdate m = (\<Sum>c\<leftarrow>TimeBinCount st # map r_TimeBinCount others.
            \<Sum>n\<in>{0..<TIMEBINS st}. if act n = 1 then c n else 0)"
    by (simp add: f(3) sumup_large_ints_def cnt comp_def)
  have rest: "\<forall>st'. find_next_sync_point_and_drift stopflag others st = Some (Inr st') \<longrightarrow>
           Ti_Current st' = Ti_Current m \<and> TimeBinActive st' = TimeBinActive m
           \<and> GlobNumForceUpdate st' = GlobNumForceUpdate m"
    unfolding find_next_sync_point_and_drift_def
    by (auto simp: r Let_def split: option.splits prod.splits if_splits)
  from r f(1,2) a0 an g rest show ?thesis unfolding tg_def[symmetric] by auto
qed

text \<open>The first part leaves the bin lists alone.\<close>

lemma sync_point_and_mark_keeps:
  assumes "0 < TIMEBASE st" and "sync_point_and_mark stopflag others st = Some m"
  shows "TIMEBINS m = TIMEBINS st" "FirstInTimeBin m = FirstInTimeBin st"
    "NextInTimeBin m = NextInTimeBin st" "NextActiveParticle m = NextActiveParticle st"
    "drift_calls m = drift_calls st"
proof -
  define tg where "tg = allreduce_min (ti_next_kick_of st (TimeBinCount st))
           (map (\<lambda>rk. ti_next_kick_of st (r_TimeBinCount rk)) others)"
  have "tg \<le> TIMEBASE st" unfolding tg_def by (rule ti_next_kick_global_le)
  from output_loop_terminates[OF this assms(1), of stopflag]
  obtain s1 where s1: "output_loop stopflag tg st = Some s1" "TIMEBINS s1 = TIMEBINS st"
    "FirstInTimeBin s1 = FirstInTimeBin st" "NextInTimeBin s1 = NextInTimeBin st"
    "NextActiveParticle s1 = NextActiveParticle st" "drift_calls s1 = drift_calls st"
    by blast
  show "TIMEBINS m = TIMEBINS st" "FirstInTimeBin m = FirstInTimeBin st"
    "NextInTimeBin m = NextInTimeBin st" "NextActiveParticle m = NextActiveParticle st"
    "drift_calls m = drift_calls st"
    using assms(2) unfolding sync_point_and_mark_def
    by (auto simp add: tg_def[symmetric] s1 Let_def split: prod.splits)
qed

lemma four_bin_kick:
  "allreduce_min (ti_next_kick_of four_bin_state (TimeBinCount four_bin_state))
     (map (\<lambda>rk. ti_next_kick_of four_bin_state (r_TimeBinCount rk)) [other_rank]) = 6"
  by (simp add: allreduce_min_def ti_next_kick_of_def four_bin_state_def other_rank_def
      next_kick_loop.simps shl1_def c_div_def Let_def)

lemma bin_list_loop_end:
  "i < 0 \<Longrightarrow> bin_list_loop next_in i prev first_active next_active
     = Some (prev, first_active, next_active)"
  by (subst bin_list_loop.simps) simp

lemma bin_list_loop_step:
  "0 \<le> i \<Longrightarrow> bin_list_loop next_in i prev first_active next_active
     = bin_list_loop next_in (next_in i) i (if prev = - 1 then i else first_active)
         (if prev \<ge> 0 then next_active(prev := i) else next_active)"
  by (subst bin_list_loop.simps) simp

lemma drift_loop_end:
  "i < 0 \<Longrightarrow> drift_loop next_active ti i num calls = Some (num, calls)"
  by (subst drift_loop.simps) simp

lemma drift_loop_step:
  "0 \<le> i \<Longrightarrow> drift_loop next_active ti i num calls
     = drift_loop next_active ti (next_active i) (num + 1) (calls @ [(i, ti)])"
  by (subst drift_loop.simps) simp

lemma four_bin_list:
  assumes "act 0 = 1" "act 1 = 1" "act 2 = 0" "act 3 = (0::int)"
  shows "build_active_list 4 act (FirstInTimeBin four_bin_state) (NextInTimeBin four_bin_state)
           (\<lambda>i. - 1)
         = Some (0, (\<lambda>i. if i = 0 then 1 else if i = 1 then 2 else - 1))"
  unfolding build_active_list_def
  by (simp add: active_list_loop.simps assms four_bin_state_def bin_list_loop_step
      bin_list_loop_end fun_eq_iff)

lemma other_rank_list:
  assumes "act 0 = 1" "act 1 = 1" "act 2 = 0" "act 3 = (0::int)"
  shows "rank_drift_count 4 act ti other_rank = Some 0"
  unfolding rank_drift_count_def build_active_list_def
  by (simp add: active_list_loop.simps assms other_rank_def bin_list_loop_end drift_loop_end)

theorem active_bins_after_sync_witness:
  "1 \<le> TIMEBINS four_bin_state \<and> 0 < TIMEBASE four_bin_state
   \<and> (\<exists>st'. find_next_sync_point_and_drift 0 [other_rank] four_bin_state = Some (Inr st')
     \<and> Ti_Current st' = 6
     \<and> TimeBinActive st' 0 = 1 \<and> TimeBinActive st' 1 = 1 \<and> TimeBinActive st' 2 = 0
     \<and> TimeBinActive st' 3 = 0 \<and> GlobNumForceUpdate st' = 3)"
proof -
  have h: "1 \<le> TIMEBINS four_bin_state" "0 < TIMEBASE four_bin_state"
    by (simp_all add: four_bin_state_def)
  from active_bins_after_sync[OF h, of 0 "[other_rank]"]
  obtain m where s: "sync_point_and_mark 0 [other_rank] four_bin_state = Some m"
     "Ti_Current m = 6" "TimeBinActive m 0 = 1"
     "\<forall>n. 1 \<le> n \<and> n < TIMEBINS four_bin_state \<longrightarrow>
           (TimeBinActive m n = 1 \<longleftrightarrow> 2 ^ nat n dvd Ti_Current m)
           \<and> (TimeBinActive m n = 0 \<longleftrightarrow> \<not> 2 ^ nat n dvd Ti_Current m)"
     "GlobNumForceUpdate m =
         (\<Sum>cnt\<leftarrow>TimeBinCount four_bin_state # map r_TimeBinCount [other_rank].
            \<Sum>n\<in>{0..<TIMEBINS four_bin_state}. if TimeBinActive m n = 1 then cnt n else 0)"
     "\<forall>st'. find_next_sync_point_and_drift 0 [other_rank] four_bin_state = Some (Inr st') \<longrightarrow>
           Ti_Current st' = Ti_Current m \<and> TimeBinActive st' = TimeBinActive m
           \<and> GlobNumForceUpdate st' = GlobNumForceUpdate m"
    unfolding four_bin_kick by blast
  have t: "TIMEBINS four_bin_state = 4" by (simp add: four_bin_state_def)
  have a1: "TimeBinActive m 1 = 1" using s(4)[rule_format, of 1] s(2) t by simp
  have a2: "TimeBinActive m 2 = 0" using s(4)[rule_format, of 2] s(2) t by simp
  have a3: "TimeBinActive m 3 = 0" using s(4)[rule_format, of 3] s(2) t by simp
  have set: "{0..<4::int} = {0, 1, 2, 3}" by auto
  have g: "GlobNumForceUpdate m = 3"
    unfolding s(5) t set using s(3) a1 a2 a3 by (simp add: four_bin_state_def other_rank_def)
  have keep: "TIMEBINS m = 4" "FirstInTimeBin m = FirstInTimeBin four_bin_state"
    "NextInTimeBin m = NextInTimeBin four_bin_state" "NextActiveParticle m = (\<lambda>i. - 1)"
    "drift_calls m = []"
    using sync_point_and_mark_keeps[OF h(2) s(1)] by (simp_all add: four_bin_state_def)
  have "\<exists>st'. find_next_sync_point_and_drift 0 [other_rank] four_bin_state = Some (Inr st')"
    unfolding find_next_sync_point_and_drift_def
    by (simp add: s(1) keep four_bin_list[OF s(3) a1 a2 a3] other_rank_list[OF s(3) a1 a2 a3]
        Let_def drift_loop_step drift_loop_end g sumup_large_ints_def)
  then obtain st' where r: "find_next_sync_point_and_drift 0 [other_rank] four_bin_state = Some (Inr st')" ..
  from s(6)[rule_format, OF r] s(2,3) a1 a2 a3 g h r show ?thesis by auto
qed

end
